theory Spec2Isabelle
  imports Complex_Main "HOL-Library.Multiset"
begin

section \<open>Python exceptions as values\<close>

text \<open>
  Every exception modelled here is an instance of Python's \<open>Exception\<close>; the argument is
  the text \<open>str(e)\<close> yields, written without its quotation marks. Asynchronous \<open>BaseException\<close>s (\<open>KeyboardInterrupt\<close>,
  \<open>SystemExit\<close> delivered by a signal) are outside the model.
  A computation that may raise has type \<open>exn + 'a\<close>, \<open>Inl\<close> being the raise.
\<close>

datatype exn =
    ImportError string
  | ZeroDivisionError string
  | OverflowError string
  | TypeError string
  | ValueError string
  | AttributeError string
  | IndexError string
  | KeyError string
  | OSError string
  | JSONDecodeError string
  | LibraryError string

fun str_exn :: "exn \<Rightarrow> string" where
  "str_exn (ImportError m) = m"
| "str_exn (ZeroDivisionError m) = m"
| "str_exn (OverflowError m) = m"
| "str_exn (TypeError m) = m"
| "str_exn (ValueError m) = m"
| "str_exn (AttributeError m) = m"
| "str_exn (IndexError m) = m"
| "str_exn (KeyError m) = m"
| "str_exn (OSError m) = m"
| "str_exn (JSONDecodeError m) = m"
| "str_exn (LibraryError m) = m"

fun is_ImportError :: "exn \<Rightarrow> bool" where
  "is_ImportError (ImportError m) = True"
| "is_ImportError e = False"

text \<open>Sequencing of computations that may raise: the first raise ends the sequence.\<close>

definition bindE :: "exn + 'a \<Rightarrow> ('a \<Rightarrow> exn + 'b) \<Rightarrow> exn + 'b" where
  "bindE m f = (case m of Inl e \<Rightarrow> Inl e | Inr a \<Rightarrow> f a)"

section \<open>bruges/scripts/avo\_analysis.py\<close>

text \<open>
  A Python float is modelled by the real number it denotes. Rounding is not modelled. Of the
  float operations the script uses, two raise: the division, on a zero divisor
  (\<open>ZeroDivisionError\<close>), and the power operator, when its operand is finite and the result
  lies beyond the largest float (\<open>OverflowError\<close>); both are written out. A sum, product or
  quotient beyond the largest float does not raise in Python, which carries on with \<open>inf\<close> or
  \<open>nan\<close>; such values have no counterpart among the reals, so what the model computes is
  exact only while every intermediate value stays within the float range. The layer
  properties come from \<open>argparse\<close> with \<open>type=float\<close>.
\<close>

record LayerProperties =
  vp :: real
  vs :: real
  rho :: real

definition py_div :: "real \<Rightarrow> real \<Rightarrow> exn + real" where
  "py_div a b = (if b = 0 then Inl (ZeroDivisionError ''float division by zero'') else Inr (a / b))"

text \<open>The largest float.\<close>

definition FLOAT_MAX :: real where
  "FLOAT_MAX = (2 - 1 / 2 ^ 52) * 2 ^ 1023"

text \<open>
  \<open>x ** 2\<close> on a float: \<open>OverflowError\<close> when \<open>x\<close> is finite and the square is out of range.
  An operand beyond the float range stands for an infinity, whose square is an infinity and
  raises nothing.
\<close>

definition pow_overflows :: "real \<Rightarrow> bool" where
  "pow_overflows x = (\<bar>x\<bar> \<le> FLOAT_MAX \<and> FLOAT_MAX < x ^ 2)"

definition py_pow2 :: "real \<Rightarrow> exn + real" where
  "py_pow2 x = (if pow_overflows x then Inl (OverflowError ''(34, Numerical result out of range)'')
                else Inr (x ^ 2))"

definition deg2rad :: "real \<Rightarrow> real" where
  "deg2rad d = d * pi / 180"

text \<open>The three averages of \<open>shuey\<close> (lines 85 to 87); dividing by the literal 2 cannot raise.\<close>

definition vp_avg :: "LayerProperties \<Rightarrow> LayerProperties \<Rightarrow> real" where
  "vp_avg layer1 layer2 = (vp layer1 + vp layer2) / 2"

definition vs_avg :: "LayerProperties \<Rightarrow> LayerProperties \<Rightarrow> real" where
  "vs_avg layer1 layer2 = (vs layer1 + vs layer2) / 2"

definition rho_avg :: "LayerProperties \<Rightarrow> LayerProperties \<Rightarrow> real" where
  "rho_avg layer1 layer2 = (rho layer1 + rho layer2) / 2"

text \<open>
  Lines 79 to 93 of \<open>shuey\<close>: the contrasts, then the intercept \<open>R0\<close> and the gradient
  \<open>G\<close>, with the six divisions and the power in the order Python evaluates them.
\<close>

definition shuey_R0_G :: "LayerProperties \<Rightarrow> LayerProperties \<Rightarrow> exn + real \<times> real" where
  "shuey_R0_G layer1 layer2 =
     (let dvp = vp layer2 - vp layer1;
          dvs = vs layer2 - vs layer1;
          drho = rho layer2 - rho layer1
      in bindE (py_div dvp (vp_avg layer1 layer2)) (\<lambda>q1.
         bindE (py_div drho (rho_avg layer1 layer2)) (\<lambda>q2.
         let R0 = 0.5 * (q1 + q2) in
         bindE (py_div (0.5 * dvp) (vp_avg layer1 layer2)) (\<lambda>q3.
         bindE (py_div (vs_avg layer1 layer2) (vp_avg layer1 layer2)) (\<lambda>q4.
         bindE (py_pow2 q4) (\<lambda>q4_squared.
         bindE (py_div drho (rho_avg layer1 layer2)) (\<lambda>q5.
         bindE (py_div (2 * dvs) (vs_avg layer1 layer2)) (\<lambda>q6.
         let G = q3 - 2 * q4_squared * (q5 + q6) in
         Inr (R0, G)))))))))"

text \<open>Line 96: \<open>Rpp = R0 + G * np.sin(theta_rad)**2\<close>, elementwise over the angle array.\<close>

definition shuey :: "LayerProperties \<Rightarrow> LayerProperties \<Rightarrow> real list \<Rightarrow> exn + real list" where
  "shuey layer1 layer2 theta =
     (let theta_rad = map deg2rad theta
      in bindE (shuey_R0_G layer1 layer2) (\<lambda>(R0, G).
         Inr (map (\<lambda>t. R0 + G * (sin t) ^ 2) theta_rad)))"

text \<open>
  The layers are objects: a call receives two references into the heap of
  \<open>LayerProperties\<close> instances. \<open>shuey\<close> reads the three fields of each and assigns to no
  attribute and to no global, so the heap it leaves is the heap it was given. The angle
  array is read by \<open>np.deg2rad\<close>, which builds a new array.
\<close>

type_synonym heap = "nat \<Rightarrow> LayerProperties"

definition shuey_call :: "heap \<Rightarrow> nat \<Rightarrow> nat \<Rightarrow> real list \<Rightarrow> (exn + real list) \<times> heap" where
  "shuey_call h ref1 ref2 theta = (shuey (h ref1) (h ref2) theta, h)"

text \<open>
  \<open>zoeppritz\<close>: the import of \<open>bruges.reflection.zoeppritz\<close> either raises or yields the
  external routine, which is a parameter here; its result type \<open>'r\<close> is opaque. The handler
  \<open>except ImportError\<close> covers the import and the call.
\<close>

datatype 'r rpp = External 'r | Approximation "real list"

type_synonym 'r brg_zoeppritz =
  "real \<Rightarrow> real \<Rightarrow> real \<Rightarrow> real \<Rightarrow> real \<Rightarrow> real \<Rightarrow> real list \<Rightarrow> exn + 'r"

definition zoeppritz ::
  "(exn + 'r brg_zoeppritz) \<Rightarrow> LayerProperties \<Rightarrow> LayerProperties \<Rightarrow> real list \<Rightarrow> exn + 'r rpp" where
  "zoeppritz import_bruges layer1 layer2 theta =
     (case bindE import_bruges (\<lambda>brg_zoeppritz.
             brg_zoeppritz (vp layer1) (vs layer1) (rho layer1)
                           (vp layer2) (vs layer2) (rho layer2) theta) of
        Inr r \<Rightarrow> Inr (External r)
      | Inl e \<Rightarrow>
          if is_ImportError e
          then bindE (shuey layer1 layer2 theta) (\<lambda>r. Inr (Approximation r))
          else Inl e)"





definition classify_avo :: "real \<Rightarrow> real \<Rightarrow> string" where
  "classify_avo intercept gradient =
     (if intercept > 0.02 then
        (if gradient < 0 then ''I'' else ''I (anomalous)'')
      else if intercept > - 0.02 then
        (if gradient < 0 then ''II'' else ''IIp'')
      else
        (if gradient < 0 then ''III'' else ''IV''))"

text \<open>
  The classification as the specification words it: three bands of the intercept, and the
  sign of the gradient.
\<close>

datatype band = Above | Middle | Below

definition intercept_band :: "real \<Rightarrow> band" where
  "intercept_band i =
     (if 0.02 < i then Above else if - 0.02 < i \<and> i \<le> 0.02 then Middle else Below)"

fun avo_table :: "band \<Rightarrow> bool \<Rightarrow> string" where
  "avo_table Above True = ''I''"
| "avo_table Above False = ''I (anomalous)''"
| "avo_table Middle True = ''II''"
| "avo_table Middle False = ''IIp''"
| "avo_table Below True = ''III''"
| "avo_table Below False = ''IV''"

section \<open>obspy/scripts/batch\_process.py\<close>

text \<open>
  A stream is the list of its traces; of a trace only the header fields the script reads are
  kept. The obspy operations are parameters. Those that work on the stream in memory take the
  stream and return the stream they leave behind, or raise. Those that reach outside the
  process (reading a waveform file or an inventory, asking a data centre, writing a file) also
  take the world \<open>'w\<close>, the file system and the network as they are at that moment; a read
  leaves the world as it is, a write returns the world it leaves. Nothing else is assumed
  about them.
\<close>

record trace =
  tr_network :: string
  tr_station :: string
  tr_starttime :: real
  tr_endtime :: real
  tr_sampling_rate :: real

type_synonym stream = "trace list"

record ('w, 'inv, 'client) obspy =
  obspy_read :: "string \<Rightarrow> 'w \<Rightarrow> exn + stream"
  st_detrend :: "string \<Rightarrow> stream \<Rightarrow> exn + stream"
  st_taper :: "real \<Rightarrow> stream \<Rightarrow> exn + stream"
  read_inventory :: "string \<Rightarrow> 'w \<Rightarrow> exn + 'inv"
  import_Client :: "exn + unit"
  fdsn_Client :: "string \<Rightarrow> 'w \<Rightarrow> exn + 'client"
  get_stations :: "'client \<Rightarrow> string \<Rightarrow> string \<Rightarrow> real \<Rightarrow> real \<Rightarrow> string \<Rightarrow> 'w \<Rightarrow> exn + 'inv"
  st_remove_response :: "'inv \<Rightarrow> string \<Rightarrow> stream \<Rightarrow> exn + stream"
  st_filter :: "string \<Rightarrow> (string \<times> real option) list \<Rightarrow> stream \<Rightarrow> exn + stream"
  st_decimate :: "int \<Rightarrow> stream \<Rightarrow> exn + stream"
  st_write :: "string \<Rightarrow> string \<Rightarrow> stream \<Rightarrow> 'w \<Rightarrow> (exn + unit) \<times> 'w"

text \<open>The keyword arguments of \<open>process_file\<close>, with \<open>None\<close> where Python allows it.\<close>

record pf_args =
  detrend :: bool
  taper :: real
  filter_type :: "string option"
  freqmin :: "real option"
  freqmax :: "real option"
  freq :: "real option"
  decimate_factor :: "int option"
  remove_response :: bool
  inventory_path :: "string option"
  output_format :: string
  output_units :: string

text \<open>
  The result dict. The four keys of line 56 are always present (a key \<open>"k"\<close> is the field \<open>r_k\<close>); the three keys added on lines 121 to 123 are \<open>None\<close> here while they are absent.
\<close>

record result =
  r_file :: string
  r_status :: string
  r_output :: "string option"
  r_error :: "string option"
  r_n_traces :: "nat option"
  r_sampling_rate :: "real option"
  r_duration :: "real option"

text \<open>\<open>st[0]\<close> raises \<open>IndexError\<close> on a stream without traces.\<close>

definition st0 :: "stream \<Rightarrow> exn + trace" where
  "st0 st = (case st of [] \<Rightarrow> Inl (IndexError ''list index out of range'') | t # _ \<Rightarrow> Inr t)"

text \<open>\<open>freq or freqmin\<close>: the first operand unless it is \<open>None\<close> or zero.\<close>

definition py_or :: "real option \<Rightarrow> real option \<Rightarrow> real option" where
  "py_or a b = (case a of None \<Rightarrow> b | Some x \<Rightarrow> if x = 0 then b else Some x)"

text \<open>
  \<open>pathlib\<close>: the final component of a path, and its stem (the name without its last suffix;
  a leading or a trailing dot starts no suffix). Paths are taken as already normalised.
\<close>

definition path_name :: "string \<Rightarrow> string" where
  "path_name p = rev (takeWhile (\<lambda>c. c \<noteq> CHR ''/'') (rev p))"

definition path_stem :: "string \<Rightarrow> string" where
  "path_stem p =
     (let name = path_name p;
          after_dot = takeWhile (\<lambda>c. c \<noteq> CHR ''.'') (rev name);
          k = length name - length after_dot
      in if CHR ''.'' \<in> set name \<and> 1 < k \<and> after_dot \<noteq> [] then take (k - 1) name else name)"

definition path_join :: "string \<Rightarrow> string \<Rightarrow> string" where
  "path_join d x = d @ ''/'' @ x"

definition ext_map :: "string \<Rightarrow> string" where
  "ext_map fmt =
     (if fmt = ''MSEED'' then ''.mseed''
      else if fmt = ''SAC'' then ''.sac''
      else if fmt = ''GSE2'' then ''.gse''
      else if fmt = ''SEGY'' then ''.sgy''
      else ''.mseed'')"

text \<open>Lines 75 to 89: the inventory, from the file given or from IRIS.\<close>

definition fetch_inventory ::
  "('w, 'inv, 'client) obspy \<Rightarrow> pf_args \<Rightarrow> stream \<Rightarrow> 'w \<Rightarrow> exn + 'inv" where
  "fetch_inventory lib a st w =
     (case inventory_path a of
        Some p \<Rightarrow>
          if p \<noteq> [] then read_inventory lib p w
          else bindE (import_Client lib) (\<lambda>_.
               bindE (fdsn_Client lib ''IRIS'' w) (\<lambda>client.
               bindE (st0 st) (\<lambda>t.
               get_stations lib client (tr_network t) (tr_station t)
                 (tr_starttime t) (tr_endtime t) ''response'' w)))
      | None \<Rightarrow>
          bindE (import_Client lib) (\<lambda>_.
          bindE (fdsn_Client lib ''IRIS'' w) (\<lambda>client.
          bindE (st0 st) (\<lambda>t.
          get_stations lib client (tr_network t) (tr_station t)
            (tr_starttime t) (tr_endtime t) ''response'' w))))"

text \<open>Lines 92 to 98: the filter; an unknown filter type leaves the stream alone.\<close>

definition apply_filter ::
  "('w, 'inv, 'client) obspy \<Rightarrow> pf_args \<Rightarrow> stream \<Rightarrow> exn + stream" where
  "apply_filter lib a st =
     (case filter_type a of
        None \<Rightarrow> Inr st
      | Some ft \<Rightarrow>
          if ft = [] then Inr st
          else if ft = ''bandpass'' then
            st_filter lib ''bandpass'' [(''freqmin'', freqmin a), (''freqmax'', freqmax a)] st
          else if ft = ''highpass'' then
            st_filter lib ''highpass'' [(''freq'', py_or (freq a) (freqmin a))] st
          else if ft = ''lowpass'' then
            st_filter lib ''lowpass'' [(''freq'', py_or (freq a) (freqmax a))] st
          else Inr st)"

text \<open>
  The \<open>try\<close> block of \<open>process_file\<close> reaches outside the process at three places. It is
  cut there into three stages, each of which sees the world at one moment: lines 64 to 72
  (the waveform file is read, then detrended and tapered in memory), lines 75 to 102 (the
  inventory is fetched if the response is to be removed; response, filter and decimation work
  in memory) and lines 105 to 118 (the output file is written).
\<close>

definition read_stage ::
  "('w, 'inv, 'client) obspy \<Rightarrow> string \<Rightarrow> pf_args \<Rightarrow> 'w \<Rightarrow> exn + stream" where
  "read_stage lib filepath a w =
     bindE (obspy_read lib filepath w) (\<lambda>st.
     bindE (if detrend a
            then bindE (st_detrend lib ''demean'' st) (st_detrend lib ''linear'')
            else Inr st) (\<lambda>st.
     if taper a \<noteq> 0 \<and> taper a > 0 then st_taper lib (taper a) st else Inr st))"

definition response_stage ::
  "('w, 'inv, 'client) obspy \<Rightarrow> pf_args \<Rightarrow> stream \<Rightarrow> 'w \<Rightarrow> exn + stream" where
  "response_stage lib a st w =
     bindE (if remove_response a
            then bindE (fetch_inventory lib a st w) (\<lambda>inv.
                 st_remove_response lib inv (output_units a) st)
            else Inr st) (\<lambda>st.
     bindE (apply_filter lib a st) (\<lambda>st.
     case decimate_factor a of
       None \<Rightarrow> Inr st
     | Some k \<Rightarrow> if k \<noteq> 0 \<and> k > 1 then st_decimate lib k st else Inr st))"

text \<open>The path of the output file, lines 105 to 117.\<close>

definition output_file_of :: "string \<Rightarrow> pf_args \<Rightarrow> string \<Rightarrow> string" where
  "output_file_of output_dir a filepath =
     (let ext = ext_map (output_format a)
      in path_join output_dir (path_stem filepath @ ext))"

definition write_stage ::
  "('w, 'inv, 'client) obspy \<Rightarrow> string \<Rightarrow> string \<Rightarrow> pf_args \<Rightarrow> stream \<Rightarrow> 'w
     \<Rightarrow> (exn + stream \<times> string) \<times> 'w" where
  "write_stage lib filepath output_dir a st w =
     (let output_file = output_file_of output_dir a filepath
      in case st_write lib output_file (output_format a) st w of
           (Inl e, w') \<Rightarrow> (Inl e, w')
         | (Inr _, w') \<Rightarrow> (Inr (st, output_file), w'))"

text \<open>
  Lines 64 to 118 in one process running alone: the three stages see the same world. The
  value is the stream as written and the path of the output file, or the exception raised,
  and the world left.
\<close>

definition process_stream ::
  "('w, 'inv, 'client) obspy \<Rightarrow> string \<Rightarrow> string \<Rightarrow> pf_args \<Rightarrow> 'w
     \<Rightarrow> (exn + stream \<times> string) \<times> 'w" where
  "process_stream lib filepath output_dir a w =
     (case bindE (read_stage lib filepath a w) (\<lambda>st. response_stage lib a st w) of
        Inl e \<Rightarrow> (Inl e, w)
      | Inr st \<Rightarrow> write_stage lib filepath output_dir a st w)"

text \<open>
  Lines 120 to 123, still inside the \<open>try\<close> block: the result dict is updated key by key, so a
  raise leaves the keys already written. The pair is the dict and the exception, if any.
\<close>

definition record_output :: "result \<Rightarrow> stream \<Rightarrow> string \<Rightarrow> result \<times> exn option" where
  "record_output result st output_file =
     (let r1 = result\<lparr>r_output := Some output_file\<rparr>;
          r2 = r1\<lparr>r_n_traces := Some (length st)\<rparr>
      in case st0 st of
           Inl e \<Rightarrow> (r2, Some e)
         | Inr t \<Rightarrow>
             let r3 = r2\<lparr>r_sampling_rate := Some (tr_sampling_rate t)\<rparr>
             in (case st0 st of
                   Inl e \<Rightarrow> (r3, Some e)
                 | Inr t1 \<Rightarrow>
                     (case st0 st of
                        Inl e \<Rightarrow> (r3, Some e)
                      | Inr t2 \<Rightarrow> (r3\<lparr>r_duration := Some (tr_endtime t1 - tr_starttime t2)\<rparr>, None))))"

text \<open>
  The result dict \<open>process_file\<close> returns, given how lines 64 to 118 ended: lines 56 to 61,
  lines 120 to 123 and the handler \<open>except Exception\<close>.
\<close>

definition result_of :: "string \<Rightarrow> exn + stream \<times> string \<Rightarrow> result" where
  "result_of filepath r =
     (let result = \<lparr>r_file = filepath, r_status = ''success'', r_output = None, r_error = None,
                    r_n_traces = None, r_sampling_rate = None, r_duration = None\<rparr>;
          (result, raised) =
            (case r of
               Inl e \<Rightarrow> (result, Some e)
             | Inr (st, output_file) \<Rightarrow> record_output result st output_file)
      in case raised of
           None \<Rightarrow> result
         | Some e \<Rightarrow> result\<lparr>r_status := ''error'', r_error := Some (str_exn e)\<rparr>)"

definition process_file ::
  "('w, 'inv, 'client) obspy \<Rightarrow> string \<Rightarrow> string \<Rightarrow> pf_args \<Rightarrow> 'w \<Rightarrow> result \<times> 'w" where
  "process_file lib filepath output_dir a w =
     (case process_stream lib filepath output_dir a w of
        (r, w') \<Rightarrow> (result_of filepath r, w'))"



text \<open>Lines 175 to 179, one worker: the files are processed in order, one after the other.\<close>

fun run_sequential ::
  "('w, 'inv, 'client) obspy \<Rightarrow> string \<Rightarrow> pf_args \<Rightarrow> string list \<Rightarrow> 'w \<Rightarrow> result list \<times> 'w" where
  "run_sequential lib output_dir a [] w = ([], w)"
| "run_sequential lib output_dir a (f # files) w =
     (case process_file lib f output_dir a w of
        (result, w') \<Rightarrow>
          (case run_sequential lib output_dir a files w' of
             (results, w'') \<Rightarrow> (result # results, w'')))"

text \<open>
  Lines 181 to 194, the process pool. Every file is submitted as one task, which a worker
  process runs as \<open>process_file\<close>; the processes share the world and nothing else. A task is
  submitted, has read its file, has processed its stream, or is completed with its result
  dict; it moves on by one stage at a time, and that stage sees the world as the other tasks
  have left it by then.
\<close>

datatype task =
    Submitted
  | HasRead "exn + stream"
  | Processed "exn + stream"
  | Completed result

definition advance ::
  "('w, 'inv, 'client) obspy \<Rightarrow> string \<Rightarrow> pf_args \<Rightarrow> string \<Rightarrow> task \<Rightarrow> 'w \<Rightarrow> task \<times> 'w" where
  "advance lib output_dir a filepath t w =
     (case t of
        Submitted \<Rightarrow> (HasRead (read_stage lib filepath a w), w)
      | HasRead r \<Rightarrow> (Processed (bindE r (\<lambda>st. response_stage lib a st w)), w)
      | Processed r \<Rightarrow>
          (case r of
             Inl e \<Rightarrow> (Completed (result_of filepath (Inl e)), w)
           | Inr st \<Rightarrow>
               (case write_stage lib filepath output_dir a st w of
                  (r', w') \<Rightarrow> (Completed (result_of filepath r'), w')))
      | Completed result \<Rightarrow> (Completed result, w))"

text \<open>
  Which task moves next is for the operating system to say: a schedule is the list of the
  tasks (by their number of submission) in the order they move. The pool admits a move of a
  task that is running; it starts a submitted task when fewer than \<open>workers\<close> tasks are
  running and every task submitted before it has been started; a completed task does not
  move. A schedule the pool does not admit is no run of the pool: the value is \<open>None\<close>.
\<close>

fun is_running :: "task \<Rightarrow> bool" where
  "is_running (HasRead r) = True"
| "is_running (Processed r) = True"
| "is_running t = False"

fun is_submitted :: "task \<Rightarrow> bool" where
  "is_submitted Submitted = True"
| "is_submitted t = False"

definition may_move :: "int \<Rightarrow> task list \<Rightarrow> nat \<Rightarrow> bool" where
  "may_move workers ts i =
     (i < length ts \<and>
      (case ts ! i of
         Submitted \<Rightarrow> int (length (filter is_running ts)) < workers
                        \<and> filter is_submitted (take i ts) = []
       | HasRead r \<Rightarrow> True
       | Processed r \<Rightarrow> True
       | Completed result \<Rightarrow> False))"

fun pool_run ::
  "('w, 'inv, 'client) obspy \<Rightarrow> string \<Rightarrow> pf_args \<Rightarrow> int \<Rightarrow> string list \<Rightarrow> nat list
     \<Rightarrow> task list \<Rightarrow> 'w \<Rightarrow> (task list \<times> 'w) option" where
  "pool_run lib output_dir a workers files [] ts w = Some (ts, w)"
| "pool_run lib output_dir a workers files (i # schedule) ts w =
     (if may_move workers ts i \<and> i < length files then
        (case advance lib output_dir a (files ! i) (ts ! i) w of
           (t, w') \<Rightarrow> pool_run lib output_dir a workers files schedule (ts[i := t]) w')
      else None)"

text \<open>The result of a completed task, as \<open>future.result()\<close> hands it over.\<close>

fun future_result :: "task \<Rightarrow> result option" where
  "future_result (Completed result) = Some result"
| "future_result t = None"

fun those_results :: "task list \<Rightarrow> result list option" where
  "those_results [] = Some []"
| "those_results (t # ts) =
     (case future_result t of
        None \<Rightarrow> None
      | Some result \<Rightarrow> map_option (\<lambda>results. result # results) (those_results ts))"

text \<open>
  Lines 165 to 194. With one worker the files are processed in order. Otherwise a
  \<open>ProcessPoolExecutor\<close> is built, which raises \<open>ValueError\<close> unless \<open>max_workers\<close> is positive;
  one future is submitted per file, the dict \<open>futures\<close> is keyed by the future (so equal file
  names stay apart), and \<open>as_completed\<close> hands the futures back in some order once they are
  done. That order is the parameter \<open>as_completed\<close>; a future is its number of submission, its
  file and its result. The loop ends when every task is completed, so a schedule that leaves
  a task unfinished is no run either.
\<close>

type_synonym future = "nat \<times> string \<times> result"

definition run_files ::
  "('w, 'inv, 'client) obspy \<Rightarrow> (future list \<Rightarrow> future list) \<Rightarrow> nat list \<Rightarrow> string list \<Rightarrow> string
     \<Rightarrow> int \<Rightarrow> pf_args \<Rightarrow> 'w \<Rightarrow> ((exn + result list) \<times> 'w) option" where
  "run_files lib as_completed schedule files output_dir workers a w =
     (if files = [] then Some (Inr [], w)
      else if workers = 1 then
        (case run_sequential lib output_dir a files w of
           (results, w') \<Rightarrow> Some (Inr results, w'))
      else if workers \<le> 0 then Some (Inl (ValueError ''max_workers must be greater than 0''), w)
      else
        (case pool_run lib output_dir a workers files schedule (map (\<lambda>f. Submitted) files) w of
           None \<Rightarrow> None
         | Some (ts, w') \<Rightarrow>
             (case those_results ts of
                None \<Rightarrow> None
              | Some finished \<Rightarrow>
                  let futures = zip [0 ..< length files] (zip files finished)
                  in Some (Inr (map (\<lambda>(i, f, result). result) (as_completed futures)), w'))))"





section \<open>scripts/validate\_skills.py\<close>

subsection \<open>Python values and the operations the script applies to them\<close>

text \<open>
  What \<open>yaml.safe_load\<close> and \<open>json.loads\<close> return: \<open>None\<close>, a truth value, a number, a
  string, a list or a dict (an association list with distinct keys). Texts are ASCII.
\<close>

datatype pyval =
    PNone
  | PBool bool
  | PInt int
  | PStr string
  | PList "pyval list"
  | PDict "(pyval \<times> pyval) list"

text \<open>\<open>needle in hay\<close> on strings: substring search.\<close>

primrec has_substr :: "string \<Rightarrow> string \<Rightarrow> bool" where
  "has_substr [] needle = (needle = [])"
| "has_substr (c # cs) needle = (take (length needle) (c # cs) = needle \<or> has_substr cs needle)"

text \<open>\<open>key in v\<close> for a string \<open>key\<close>; a value that is not a container raises \<open>TypeError\<close>.\<close>

fun py_contains :: "string \<Rightarrow> pyval \<Rightarrow> exn + bool" where
  "py_contains key (PDict kvs) = Inr (PStr key \<in> set (map fst kvs))"
| "py_contains key (PList xs) = Inr (PStr key \<in> set xs)"
| "py_contains key (PStr s) = Inr (has_substr s key)"
| "py_contains key PNone = Inl (TypeError ''argument of type NoneType is not iterable'')"
| "py_contains key (PBool b) = Inl (TypeError ''argument of type bool is not iterable'')"
| "py_contains key (PInt i) = Inl (TypeError ''argument of type int is not iterable'')"

text \<open>\<open>v[key]\<close> for a string \<open>key\<close>.\<close>

fun py_getitem :: "pyval \<Rightarrow> string \<Rightarrow> exn + pyval" where
  "py_getitem (PDict kvs) key =
     (case map_of kvs (PStr key) of None \<Rightarrow> Inl (KeyError key) | Some v \<Rightarrow> Inr v)"
| "py_getitem (PList xs) key = Inl (TypeError ''list indices must be integers or slices, not str'')"
| "py_getitem (PStr s) key = Inl (TypeError ''string indices must be integers, not str'')"
| "py_getitem v key = Inl (TypeError ''object is not subscriptable'')"

text \<open>\<open>v.get(key, default)\<close>: only a dict has the method.\<close>

fun py_get :: "pyval \<Rightarrow> string \<Rightarrow> pyval \<Rightarrow> exn + pyval" where
  "py_get (PDict kvs) key dflt = Inr (case map_of kvs (PStr key) of None \<Rightarrow> dflt | Some v \<Rightarrow> v)"
| "py_get v key dflt = Inl (AttributeError ''object has no attribute get'')"

text \<open>Iterating a value: a list gives its elements, a dict its keys, a string its characters.\<close>

fun py_iter :: "pyval \<Rightarrow> exn + pyval list" where
  "py_iter (PList xs) = Inr xs"
| "py_iter (PDict kvs) = Inr (map fst kvs)"
| "py_iter (PStr s) = Inr (map (\<lambda>c. PStr [c]) s)"
| "py_iter v = Inl (TypeError ''object is not iterable'')"

text \<open>Adding a value to a set hashes it: lists and dicts are unhashable.\<close>

fun py_hashable :: "pyval \<Rightarrow> exn + pyval" where
  "py_hashable (PList xs) = Inl (TypeError ''unhashable type: list'')"
| "py_hashable (PDict kvs) = Inl (TypeError ''unhashable type: dict'')"
| "py_hashable v = Inr v"

fun mapE :: "('a \<Rightarrow> exn + 'b) \<Rightarrow> 'a list \<Rightarrow> exn + 'b list" where
  "mapE f [] = Inr []"
| "mapE f (x # xs) = bindE (f x) (\<lambda>y. bindE (mapE f xs) (\<lambda>ys. Inr (y # ys)))"

subsection \<open>String methods\<close>

text \<open>\<open>s.split(sep, maxsplit)\<close> for a non-empty separator.\<close>

primrec split_once :: "string \<Rightarrow> string \<Rightarrow> (string \<times> string) option" where
  "split_once [] sep = None"
| "split_once (c # cs) sep =
     (if take (length sep) (c # cs) = sep then Some ([], drop (length sep) (c # cs))
      else map_option (\<lambda>(a, b). (c # a, b)) (split_once cs sep))"

fun py_split :: "string \<Rightarrow> nat \<Rightarrow> string \<Rightarrow> string list" where
  "py_split sep 0 s = [s]"
| "py_split sep (Suc n) s =
     (case split_once s sep of None \<Rightarrow> [s] | Some (a, b) \<Rightarrow> a # py_split sep n b)"

text \<open>The lines of a text as the newline character alone separates them.\<close>

fun split_nl :: "string \<Rightarrow> string list" where
  "split_nl [] = [[]]"
| "split_nl (c # cs) =
     (if c = CHR 0x0A then [] # split_nl cs
      else (case split_nl cs of [] \<Rightarrow> [[c]] | l # ls \<Rightarrow> (c # l) # ls))"

text \<open>
  \<open>s.splitlines()\<close>: a line ends at a line feed, a carriage return (with the line feed that
  follows it, if any), a vertical tab, a form feed or one of the separators \<open>0x1C\<close> to \<open>0x1E\<close>;
  what follows the last line end is a line only if it is not empty. The first argument tells
  that the previous character was a carriage return, the second is the line read so far,
  reversed.
\<close>

definition is_line_end :: "char \<Rightarrow> bool" where
  "is_line_end c = (c \<in> set [CHR 0x0A, CHR 0x0D, CHR 0x0B, CHR 0x0C, CHR 0x1C, CHR 0x1D, CHR 0x1E])"

fun splitlines_from :: "bool \<Rightarrow> string \<Rightarrow> string \<Rightarrow> string list" where
  "splitlines_from after_cr cur [] = (if cur = [] then [] else [rev cur])"
| "splitlines_from after_cr cur (c # cs) =
     (if c = CHR 0x0A \<and> after_cr \<and> cur = [] then splitlines_from False [] cs
      else if is_line_end c then rev cur # splitlines_from (c = CHR 0x0D) [] cs
      else splitlines_from False (c # cur) cs)"

definition splitlines :: "string \<Rightarrow> string list" where
  "splitlines s = splitlines_from False [] s"

definition ascii_lower :: "char \<Rightarrow> char" where
  "ascii_lower c =
     (if 65 \<le> (of_char c :: nat) \<and> (of_char c :: nat) \<le> 90 then char_of (of_char c + 32 :: nat) else c)"

definition lower :: "string \<Rightarrow> string" where
  "lower s = map ascii_lower s"

subsection \<open>The validator\<close>

definition REQUIRED_FRONTMATTER_FIELDS :: "string list" where
  "REQUIRED_FRONTMATTER_FIELDS =
     [''name'', ''description'', ''version'', ''author'', ''license'', ''tags'', ''dependencies'']"

definition MIN_LINES :: nat where "MIN_LINES = 150"
definition MAX_LINES :: nat where "MAX_LINES = 500"
definition MIN_TAGS :: nat where "MIN_TAGS = 7"

definition SKIP_DIRS :: "string list" where
  "SKIP_DIRS = [''.claude-plugin'', ''.git'', ''.github'', ''docs'', ''scripts'',
                ''node_modules'', ''__pycache__'']"

text \<open>An issue is its level and its message; the messages are kept structured.\<close>

datatype level = ERROR | WARN

datatype message =
    MissingFrontmatter
  | InvalidYAML pyval
  | MissingField string
  | FewTags nat
  | FewLines nat
  | TooManyLines nat
  | UntaggedCodeBlock nat
  | MissingWhenToUse
  | MissingMarketplace
  | InvalidJSON string
  | SkillNotInMarketplace string
  | PluginWithoutSkill pyval

type_synonym issue = "level \<times> message"

text \<open>
  \<open>parse_frontmatter\<close>; \<open>yaml.safe_load\<close> is a parameter. Any exception of the import or of
  the load becomes the dict \<open>{"_error": str(e)}\<close>.
\<close>

definition parse_frontmatter :: "(string \<Rightarrow> exn + pyval) \<Rightarrow> string \<Rightarrow> pyval" where
  "parse_frontmatter safe_load text =
     (if take 3 text \<noteq> ''---'' then PNone
      else let parts = py_split ''---'' 2 text in
        if length parts < 3 then PNone
        else (case safe_load (parts ! 1) of
                Inr v \<Rightarrow> v
              | Inl e \<Rightarrow> PDict [(PStr ''_error'', PStr (str_exn e))]))"

text \<open>
  Lines 81 to 85: the pattern matches a line (between newlines) made of three backquotes and
  word characters; it is reported when no word character follows, with its line number.
\<close>

definition untagged_code_blocks :: "string \<Rightarrow> nat list" where
  "untagged_code_blocks text =
     map (\<lambda>(i, l). i + 1) (filter (\<lambda>(i, l). l = ''```'') (zip [0 ..< length (split_nl text)] (split_nl text)))"

text \<open>
  \<open>validate_skill\<close>; the argument \<open>read_text\<close> is what reading \<open>SKILL.md\<close> gives, the text or
  a raise.
\<close>

definition validate_skill :: "(string \<Rightarrow> exn + pyval) \<Rightarrow> exn + string \<Rightarrow> exn + issue list" where
  "validate_skill safe_load read_text =
     bindE read_text (\<lambda>text.
     let line_count = length (splitlines text);
         fm = parse_frontmatter safe_load text
     in if fm = PNone then Inr [(ERROR, MissingFrontmatter)]
        else bindE (py_contains ''_error'' fm) (\<lambda>invalid.
          if invalid then bindE (py_getitem fm ''_error'') (\<lambda>msg. Inr [(ERROR, InvalidYAML msg)])
          else
            bindE (mapE (\<lambda>field. bindE (py_contains field fm) (\<lambda>present.
                           Inr (if \<not> present then [(ERROR, MissingField field)] else [])))
                        REQUIRED_FRONTMATTER_FIELDS) (\<lambda>missing.
            bindE (py_get fm ''tags'' (PList [])) (\<lambda>tags.
            let few_tags = (case tags of
                              PList ts \<Rightarrow> if length ts < MIN_TAGS then [(WARN, FewTags (length ts))] else []
                            | _ \<Rightarrow> []);
                lines = (if line_count < MIN_LINES then [(WARN, FewLines line_count)]
                         else if line_count > MAX_LINES then [(ERROR, TooManyLines line_count)]
                         else []);
                blocks = map (\<lambda>line_num. (WARN, UntaggedCodeBlock line_num)) (untagged_code_blocks text);
                when_to_use = (if \<not> has_substr (lower text) ''when to use''
                               then [(WARN, MissingWhenToUse)] else [])
            in Inr (concat missing @ few_tags @ lines @ blocks @ when_to_use)))))"

text \<open>
  \<open>validate_marketplace\<close>; the first argument is \<open>None\<close> when \<open>marketplace.json\<close> does not
  exist and otherwise what reading it gives; \<open>json.loads\<close> is a parameter. Only
  \<open>JSONDecodeError\<close> is caught. The sets are lists without repetition; Python fixes no order
  for them.
\<close>

fun is_JSONDecodeError :: "exn \<Rightarrow> bool" where
  "is_JSONDecodeError (JSONDecodeError m) = True"
| "is_JSONDecodeError e = False"

definition plugin_names_of :: "pyval \<Rightarrow> exn + pyval list" where
  "plugin_names_of data =
     bindE (py_get data ''plugins'' (PList [])) (\<lambda>plugins.
     bindE (py_iter plugins) (\<lambda>ps.
     bindE (mapE (\<lambda>p. bindE (py_getitem p ''name'') py_hashable) ps) (\<lambda>names.
     Inr (remdups names))))"

definition validate_marketplace ::
  "(string \<Rightarrow> exn + pyval) \<Rightarrow> (exn + string) option \<Rightarrow> string list \<Rightarrow> exn + issue list" where
  "validate_marketplace json_loads mp skill_names =
     (case mp of
        None \<Rightarrow> Inr [(ERROR, MissingMarketplace)]
      | Some read_text \<Rightarrow>
          (case bindE read_text json_loads of
             Inl e \<Rightarrow> if is_JSONDecodeError e then Inr [(ERROR, InvalidJSON (str_exn e))] else Inl e
           | Inr data \<Rightarrow>
               bindE (plugin_names_of data) (\<lambda>plugin_names.
               Inr (map (\<lambda>skill. (ERROR, SkillNotInMarketplace skill))
                        (filter (\<lambda>skill. PStr skill \<notin> set plugin_names) skill_names)
                    @ map (\<lambda>plugin. (WARN, PluginWithoutSkill plugin))
                        (filter (\<lambda>plugin. plugin \<notin> set (map PStr skill_names)) plugin_names)))))"

text \<open>
  The repository tree as \<open>main\<close> sees it: the entries of the root directory in sorted order, each with
  its name, whether it is a directory and, if it holds a \<open>SKILL.md\<close>, what reading that file
  gives; and \<open>.claude-plugin/marketplace.json\<close>.
\<close>

record entry =
  e_name :: string
  e_is_dir :: bool
  e_skill_md :: "(exn + string) option"

record repo_root =
  entries :: "entry list"
  marketplace_json :: "(exn + string) option"

definition find_skill_dirs :: "repo_root \<Rightarrow> entry list" where
  "find_skill_dirs repo =
     filter (\<lambda>d. e_is_dir d \<and> e_name d \<notin> set SKIP_DIRS \<and> take 1 (e_name d) \<noteq> ''.''
                 \<and> e_skill_md d \<noteq> None)
            (entries repo)"

definition read_skill_md :: "entry \<Rightarrow> exn + string" where
  "read_skill_md d =
     (case e_skill_md d of None \<Rightarrow> Inl (OSError ''No such file or directory'') | Some r \<Rightarrow> r)"

definition count_level :: "level \<Rightarrow> issue list \<Rightarrow> nat" where
  "count_level l issues = length (filter (\<lambda>i. fst i = l) issues)"

text \<open>Lines 133 to 138: the loop over the skills, adding to the two totals.\<close>

fun tally_skills ::
  "(string \<Rightarrow> exn + pyval) \<Rightarrow> entry list \<Rightarrow> nat \<times> nat \<Rightarrow> exn + nat \<times> nat" where
  "tally_skills safe_load [] totals = Inr totals"
| "tally_skills safe_load (skill_dir # rest) (total_errors, total_warnings) =
     bindE (validate_skill safe_load (read_skill_md skill_dir)) (\<lambda>issues.
     tally_skills safe_load rest
       (total_errors + count_level ERROR issues, total_warnings + count_level WARN issues))"

text \<open>
  \<open>main\<close>: the value is the status handed to \<open>sys.exit\<close>, or the exception that leaves
  \<open>main\<close>. Printing is not modelled.
\<close>

definition main ::
  "(string \<Rightarrow> exn + pyval) \<Rightarrow> (string \<Rightarrow> exn + pyval) \<Rightarrow> repo_root \<Rightarrow> exn + nat" where
  "main safe_load json_loads repo =
     (let skill_dirs = find_skill_dirs repo in
      if skill_dirs = [] then Inr 1
      else
        bindE (tally_skills safe_load skill_dirs (0, 0)) (\<lambda>(total_errors, total_warnings).
        let skill_names = remdups (map e_name skill_dirs) in
        bindE (validate_marketplace json_loads (marketplace_json repo) skill_names) (\<lambda>mp_issues.
        let total_errors = total_errors + count_level ERROR mp_issues;
            total_warnings = total_warnings + count_level WARN mp_issues
        in if total_errors > 0 then Inr 1 else Inr 0)))"

text \<open>
  The script as a process: \<open>main()\<close> is called without arguments and nothing in the file reads
  \<open>sys.argv\<close>, so the command line \<open>argv\<close> is not used. An exception that leaves \<open>main\<close> ends
  the interpreter with a traceback and status 1.
\<close>

definition validate_skills_script ::
  "(string \<Rightarrow> exn + pyval) \<Rightarrow> (string \<Rightarrow> exn + pyval) \<Rightarrow> string list \<Rightarrow> repo_root \<Rightarrow> nat" where
  "validate_skills_script safe_load json_loads argv repo =
     (case main safe_load json_loads repo of Inl e \<Rightarrow> 1 | Inr exit_status \<Rightarrow> exit_status)"

text \<open>
  All the issues of a run, in the order \<open>main\<close> meets them: the list each \<open>validate_skill\<close>
  returns, then the list \<open>validate_marketplace\<close> returns.
\<close>

definition issues_found ::
  "(string \<Rightarrow> exn + pyval) \<Rightarrow> (string \<Rightarrow> exn + pyval) \<Rightarrow> repo_root \<Rightarrow> exn + issue list" where
  "issues_found safe_load json_loads repo =
     bindE (mapE (\<lambda>d. validate_skill safe_load (read_skill_md d)) (find_skill_dirs repo)) (\<lambda>per_skill.
     bindE (validate_marketplace json_loads (marketplace_json repo)
              (remdups (map e_name (find_skill_dirs repo)))) (\<lambda>mp_issues.
     Inr (concat per_skill @ mp_issues)))"

section \<open>lasio/scripts/las\_to\_csv.py\<close>

text \<open>
  The operations of \<open>lasio\<close> and \<open>pandas\<close> the script calls are parameters; each returns its
  value or raises. \<open>las_df\<close> is \<open>las.df().reset_index()\<close>, \<open>las_null_value\<close> is
  \<open>las.well.get("NULL", {}).get("value", -999.25)\<close>, \<open>to_float\<close> is \<open>float\<close> on that value,
  \<open>df_replace\<close> is \<open>df.replace(null_val, np.nan)\<close> and \<open>df_select\<close> is \<open>df[cols]\<close>.
\<close>

record ('las, 'df, 'v) lasio =
  lasio_read :: "string \<Rightarrow> exn + 'las"
  las_df :: "'las \<Rightarrow> exn + 'df"
  df_columns :: "'df \<Rightarrow> string list"
  df_select :: "'df \<Rightarrow> string list \<Rightarrow> exn + 'df"
  las_null_value :: "'las \<Rightarrow> exn + 'v"
  to_float :: "'v \<Rightarrow> exn + real"
  df_replace :: "'df \<Rightarrow> real \<Rightarrow> exn + 'df"
  df_to_csv :: "'df \<Rightarrow> string \<Rightarrow> exn + unit"

text \<open>
  \<open>Path(p).with_suffix(sfx)\<close> as a string: the last suffix of the final component is
  replaced; a path without a final component raises \<open>ValueError\<close>.
\<close>

definition with_suffix :: "string \<Rightarrow> string \<Rightarrow> exn + string" where
  "with_suffix p sfx =
     (if path_name p = [] then Inl (ValueError ''path has an empty name'')
      else Inr (take (length p - length (path_name p)) p @ path_stem p @ sfx))"

text \<open>The handler \<open>except (ValueError, TypeError)\<close> of line 52.\<close>

fun is_ValueError_or_TypeError :: "exn \<Rightarrow> bool" where
  "is_ValueError_or_TypeError (ValueError m) = True"
| "is_ValueError_or_TypeError (TypeError m) = True"
| "is_ValueError_or_TypeError e = False"

text \<open>\<open>df.columns[0]\<close>.\<close>

definition first_column :: "string list \<Rightarrow> exn + string" where
  "first_column cols =
     (case cols of [] \<Rightarrow> Inl (IndexError ''index 0 is out of bounds'') | c # _ \<Rightarrow> Inr c)"

text \<open>
  \<open>las_to_csv\<close>. The one \<open>try\<close> block of the file encloses \<open>float(null_val)\<close> and
  \<open>df.replace\<close>; \<open>lasio.read\<close>, \<open>las.df\<close>, \<open>df[cols]\<close> and \<open>df.to_csv\<close> are outside any
  \<open>try\<close>.
\<close>

definition las_to_csv ::
  "('las, 'df, 'v) lasio \<Rightarrow> string \<Rightarrow> string option \<Rightarrow> string list option \<Rightarrow> bool \<Rightarrow> exn + string" where
  "las_to_csv lib las_path csv_path curves replace_null =
     bindE (lasio_read lib las_path) (\<lambda>las.
     bindE (las_df lib las) (\<lambda>df.
     bindE (case curves of
              None \<Rightarrow> Inr df
            | Some cs \<Rightarrow>
                if cs = [] then Inr df
                else bindE (first_column (df_columns lib df)) (\<lambda>depth_col.
                     df_select lib df (depth_col # filter (\<lambda>c. c \<in> set (df_columns lib df)) cs))) (\<lambda>df.
     bindE (if replace_null
            then bindE (las_null_value lib las) (\<lambda>null_val.
                 case bindE (to_float lib null_val) (df_replace lib df) of
                   Inr df' \<Rightarrow> Inr df'
                 | Inl e \<Rightarrow> if is_ValueError_or_TypeError e then Inr df else Inl e)
            else Inr df) (\<lambda>df.
     bindE (case csv_path of None \<Rightarrow> with_suffix las_path ''.csv'' | Some p \<Rightarrow> Inr p) (\<lambda>csv_path.
     bindE (df_to_csv lib df csv_path) (\<lambda>_.
     Inr csv_path))))))"

text \<open>
  The operations on paths \<open>main\<close> uses, as they answer in the run considered.
\<close>

record path_ops =
  p_mkdir :: "string \<Rightarrow> exn + unit"
  p_is_file :: "string \<Rightarrow> bool"
  p_is_dir :: "string \<Rightarrow> bool"
  p_glob :: "string \<Rightarrow> string \<Rightarrow> exn + string list"

text \<open>The parsed command line of \<open>main\<close>.\<close>

record las_args =
  a_input :: string
  a_output :: "string option"
  a_curves :: "string list option"
  a_keep_null :: bool
  a_output_dir :: "string option"

text \<open>
  A run of \<open>main\<close> is the lines it printed and how it ended: with an exit status (0 when
  \<open>main\<close> returns, 1 from \<open>exit(1)\<close>) or with the exception that left it.
\<close>

type_synonym run = "string list \<times> (exn + nat)"

text \<open>Lines 93 to 101: the loop over the files of a directory.\<close>

fun convert_files ::
  "('las, 'df, 'v) lasio \<Rightarrow> string \<Rightarrow> las_args \<Rightarrow> string list \<Rightarrow> run" where
  "convert_files lib output_dir a [] = ([], Inr 0)"
| "convert_files lib output_dir a (las_file # rest) =
     (case bindE (with_suffix las_file ''.csv'') (\<lambda>p.
             las_to_csv lib las_file (Some (path_join output_dir (path_name p)))
               (a_curves a) (\<not> a_keep_null a)) of
        Inl e \<Rightarrow> ([], Inl e)
      | Inr result \<Rightarrow>
          (case convert_files lib output_dir a rest of
             (printed, ending) \<Rightarrow> ((''Created: '' @ result) # printed, ending)))"

definition las_to_csv_main :: "path_ops \<Rightarrow> ('las, 'df, 'v) lasio \<Rightarrow> las_args \<Rightarrow> run" where
  "las_to_csv_main fs lib a =
     (let input_path = a_input a in
      if p_is_file fs input_path then
        (case bindE (case a_output a of
                       None \<Rightarrow> with_suffix input_path ''.csv''
                     | Some out \<Rightarrow> if out = [] then with_suffix input_path ''.csv'' else Inr out)
                (\<lambda>output. las_to_csv lib input_path (Some output) (a_curves a) (\<not> a_keep_null a)) of
           Inl e \<Rightarrow> ([], Inl e)
         | Inr result \<Rightarrow> ([''Created: '' @ result], Inr 0))
      else if p_is_dir fs input_path then
        (let output_dir = (case a_output_dir a of
                             None \<Rightarrow> input_path
                           | Some d \<Rightarrow> if d = [] then input_path else d)
         in case bindE (p_mkdir fs output_dir) (\<lambda>_. p_glob fs input_path ''*.las'') of
              Inl e \<Rightarrow> ([], Inl e)
            | Inr files \<Rightarrow> convert_files lib output_dir a files)
      else ([''Error: '' @ input_path @ '' not found''], Inr 1))"

section \<open>simpeg/scripts/dc\_inversion.py and pygimli/scripts/ert\_inversion.py\<close>

subsection \<open>Calls into an external package\<close>

text \<open>
  The objects of SimPEG, numpy and pyGIMLi are references of an opaque type \<open>'obj\<close>; what they hold
  lives in an opaque world \<open>'w\<close> that every external call reads and may change. An external
  call returns its value or raises, and leaves a new world. A program threads the world
  through its calls and keeps the list of the calls it made, each as the object or module
  called and the name of the method, in order. Printing is not modelled.
\<close>

type_synonym ('w, 'a) ext = "'w \<Rightarrow> (exn + 'a) \<times> 'w"

type_synonym method_call = "string \<times> string"

type_synonym ('w, 'a) prog = "'w \<Rightarrow> (exn + 'a) \<times> 'w \<times> method_call list"

definition ext_call :: "method_call \<Rightarrow> ('w, 'a) ext \<Rightarrow> ('w, 'a) prog" where
  "ext_call name f w = (case f w of (r, w') \<Rightarrow> (r, w', [name]))"

definition returnP :: "'a \<Rightarrow> ('w, 'a) prog" where
  "returnP a w = (Inr a, w, [])"

definition bindP :: "('w, 'a) prog \<Rightarrow> ('a \<Rightarrow> ('w, 'b) prog) \<Rightarrow> ('w, 'b) prog" where
  "bindP m f w =
     (case m w of
        (Inl e, w', calls) \<Rightarrow> (Inl e, w', calls)
      | (Inr a, w', calls) \<Rightarrow> (case f a w' of (r, w'', calls') \<Rightarrow> (r, w'', calls @ calls')))"

text \<open>How many calls of a run were calls of the method \<open>m\<close>.\<close>

definition method_calls :: "string \<Rightarrow> method_call list \<Rightarrow> nat" where
  "method_calls m calls = length (filter (\<lambda>c. snd c = m) calls)"

subsection \<open>dc\_inversion.py\<close>

text \<open>
  What the script calls in SimPEG, discretize and numpy. Arrays and numpy numbers are objects
  too: \<open>obj_mul\<close> is the operator \<open>*\<close> between two objects, \<open>float_div\<close> the operator \<open>/\<close>
  with a Python float on the left and an object on the right, and \<open>arr_min\<close>, \<open>arr_max\<close> are
  \<open>min()\<close> and \<open>max()\<close> of an array. Nothing is assumed about any of them.
\<close>

record ('w, 'obj) simpeg =
  maps_ExpMap :: "'obj \<Rightarrow> ('w, 'obj) ext"
  dc_Simulation2DNodal :: "'obj \<Rightarrow> 'obj \<Rightarrow> 'obj \<Rightarrow> ('w, 'obj) ext"
  L2DataMisfit :: "'obj \<Rightarrow> 'obj \<Rightarrow> ('w, 'obj) ext"
  WeightedLeastSquares :: "'obj \<Rightarrow> real \<Rightarrow> real \<Rightarrow> real \<Rightarrow> ('w, 'obj) ext"
  InexactGaussNewton :: "int \<Rightarrow> int \<Rightarrow> ('w, 'obj) ext"
  opt_remember :: "'obj \<Rightarrow> string \<Rightarrow> ('w, unit) ext"
  BaseInvProblem :: "'obj \<Rightarrow> 'obj \<Rightarrow> 'obj \<Rightarrow> ('w, 'obj) ext"
  BetaEstimate_ByEig :: "real \<Rightarrow> ('w, 'obj) ext"
  BetaSchedule :: "real \<Rightarrow> real \<Rightarrow> ('w, 'obj) ext"
  TargetMisfit :: "real \<Rightarrow> ('w, 'obj) ext"
  SaveOutputEveryIteration :: "('w, 'obj) ext"
  BaseInversion :: "'obj \<Rightarrow> 'obj list \<Rightarrow> ('w, 'obj) ext"
  np_log :: "real \<Rightarrow> ('w, 'obj) ext"
  mesh_nC :: "'obj \<Rightarrow> ('w, 'obj) ext"
  np_ones :: "'obj \<Rightarrow> ('w, 'obj) ext"
  obj_mul :: "'obj \<Rightarrow> 'obj \<Rightarrow> ('w, 'obj) ext"
  inv_run :: "'obj \<Rightarrow> 'obj \<Rightarrow> ('w, 'obj) ext"
  float_div :: "real \<Rightarrow> 'obj \<Rightarrow> ('w, 'obj) ext"
  arr_min :: "'obj \<Rightarrow> ('w, 'obj) ext"
  arr_max :: "'obj \<Rightarrow> ('w, 'obj) ext"

text \<open>
  \<open>run_inversion\<close> of \<open>dc_inversion.py\<close>, lines 201 to 270, call by call in the order Python
  evaluates them. The starting model is \<open>np.log(1.0 / 100.0) * np.ones(mesh.nC)\<close>; the
  recovered model is what \<open>inv.run(m0)\<close> returns; the value returned is
  \<open>1.0 / (sigma_map * mrec)\<close>. The last \<open>print\<close> calls \<open>rho_rec.min()\<close> and \<open>rho_rec.max()\<close>
  before the function returns.
\<close>

definition dc_run_inversion ::
  "('w, 'obj) simpeg \<Rightarrow> 'obj \<Rightarrow> 'obj \<Rightarrow> 'obj \<Rightarrow> int \<Rightarrow> ('w, 'obj) prog" where
  "dc_run_inversion lib mesh survey obs_data max_iter =
     bindP (ext_call (''maps'', ''ExpMap'') (maps_ExpMap lib mesh)) (\<lambda>sigma_map.
     bindP (ext_call (''dc'', ''Simulation2DNodal'')
              (dc_Simulation2DNodal lib mesh survey sigma_map)) (\<lambda>simulation.
     bindP (ext_call (''data_misfit'', ''L2DataMisfit'')
              (L2DataMisfit lib obs_data simulation)) (\<lambda>dmis.
     bindP (ext_call (''regularization'', ''WeightedLeastSquares'')
              (WeightedLeastSquares lib mesh (1 / 100) 1 1)) (\<lambda>reg.
     bindP (ext_call (''optimization'', ''InexactGaussNewton'')
              (InexactGaussNewton lib max_iter 20)) (\<lambda>opt.
     bindP (ext_call (''opt'', ''remember'') (opt_remember lib opt ''xc'')) (\<lambda>_.
     bindP (ext_call (''inverse_problem'', ''BaseInvProblem'')
              (BaseInvProblem lib dmis reg opt)) (\<lambda>inv_prob.
     bindP (ext_call (''directives'', ''BetaEstimate_ByEig'') (BetaEstimate_ByEig lib 10)) (\<lambda>starting_beta.
     bindP (ext_call (''directives'', ''BetaSchedule'') (BetaSchedule lib 2 1)) (\<lambda>beta_schedule.
     bindP (ext_call (''directives'', ''TargetMisfit'') (TargetMisfit lib 1)) (\<lambda>target_misfit.
     bindP (ext_call (''directives'', ''SaveOutputEveryIteration'')
              (SaveOutputEveryIteration lib)) (\<lambda>save_iteration.
     let dir_list = [starting_beta, beta_schedule, target_misfit, save_iteration] in
     bindP (ext_call (''inversion'', ''BaseInversion'') (BaseInversion lib inv_prob dir_list)) (\<lambda>inv.
     bindP (ext_call (''np'', ''log'') (np_log lib (1 / 100))) (\<lambda>log_sigma.
     bindP (ext_call (''mesh'', ''nC'') (mesh_nC lib mesh)) (\<lambda>nC.
     bindP (ext_call (''np'', ''ones'') (np_ones lib nC)) (\<lambda>ones.
     bindP (ext_call (''np.float64'', ''__mul__'') (obj_mul lib log_sigma ones)) (\<lambda>m0.
     bindP (ext_call (''inv'', ''run'') (inv_run lib inv m0)) (\<lambda>mrec.
     bindP (ext_call (''sigma_map'', ''__mul__'') (obj_mul lib sigma_map mrec)) (\<lambda>sigma_rec.
     bindP (ext_call (''sigma_rec'', ''__rtruediv__'') (float_div lib 1 sigma_rec)) (\<lambda>rho_rec.
     bindP (ext_call (''rho_rec'', ''min'') (arr_min lib rho_rec)) (\<lambda>_.
     bindP (ext_call (''rho_rec'', ''max'') (arr_max lib rho_rec)) (\<lambda>_.
     returnP rho_rec)))))))))))))))))))))"

subsection \<open>ert\_inversion.py\<close>

record ('w, 'obj, 'model) pygimli =
  ERTManager :: "'obj \<Rightarrow> ('w, 'obj) ext"
  mgr_setMesh :: "'obj \<Rightarrow> 'obj \<Rightarrow> ('w, unit) ext"
  mgr_invert :: "'obj \<Rightarrow> real \<Rightarrow> real \<Rightarrow> bool \<Rightarrow> int \<Rightarrow> bool \<Rightarrow> ('w, 'model) ext"
  inv_chi2 :: "'obj \<Rightarrow> ('w, real) ext"
  inv_relrms :: "'obj \<Rightarrow> ('w, real) ext"
  inv_iter :: "'obj \<Rightarrow> ('w, int) ext"

text \<open>
  \<open>run_inversion\<close> of \<open>ert_inversion.py\<close>, lines 82 to 127; \<open>mesh\<close> is \<open>None\<close> or a mesh.
\<close>

definition ert_run_inversion ::
  "('w, 'obj, 'model) pygimli \<Rightarrow> 'obj \<Rightarrow> 'obj option \<Rightarrow> real \<Rightarrow> real \<Rightarrow> bool \<Rightarrow> int \<Rightarrow> bool
     \<Rightarrow> ('w, 'obj \<times> 'model) prog" where
  "ert_run_inversion lib dat mesh lam z_weight robust max_iter verbose =
     bindP (ext_call (''ert'', ''ERTManager'') (ERTManager lib dat)) (\<lambda>mgr.
     bindP (case mesh of
              None \<Rightarrow> returnP ()
            | Some m \<Rightarrow> ext_call (''mgr'', ''setMesh'') (mgr_setMesh lib mgr m)) (\<lambda>_.
     bindP (ext_call (''mgr'', ''invert'')
              (mgr_invert lib mgr lam z_weight robust max_iter verbose)) (\<lambda>model.
     bindP (ext_call (''mgr.inv'', ''chi2'') (inv_chi2 lib mgr)) (\<lambda>chi2.
     bindP (ext_call (''mgr.inv'', ''relrms'') (inv_relrms lib mgr)) (\<lambda>rms.
     bindP (ext_call (''mgr.inv'', ''iter'') (inv_iter lib mgr)) (\<lambda>_.
     returnP (mgr, model)))))))"

section \<open>Concrete arguments and stubs for evaluation\<close>

text \<open>
  For \<open>batch_process.py\<close>. The world is a disk: what each path holds, as the stream a read
  of it returns. The library reads a stream from the disk (a missing file raises), refuses to
  write a stream without traces and otherwise stores the stream at the path; its processing
  steps all succeed and leave the stream as it is. The disk holds \<open>d/a.mseed\<close>, one trace
  sampled at 100 Hz, and \<open>d/a.sac\<close>, one trace sampled at 50 Hz. The arguments are the
  defaults of \<open>main\<close> with the output format \<open>SAC\<close>.
\<close>

type_synonym disk = "string \<Rightarrow> stream option"

definition disk_obspy :: "(disk, unit, unit) obspy" where
  "disk_obspy =
     \<lparr>obspy_read = (\<lambda>p w. case w p of
                            None \<Rightarrow> Inl (OSError ''No such file or directory'')
                          | Some st \<Rightarrow> Inr st),
      st_detrend = (\<lambda>k st. Inr st),
      st_taper = (\<lambda>p st. Inr st),
      read_inventory = (\<lambda>p w. Inr ()),
      import_Client = Inr (),
      fdsn_Client = (\<lambda>n w. Inr ()),
      get_stations = (\<lambda>c n s t1 t2 l w. Inr ()),
      st_remove_response = (\<lambda>i u st. Inr st),
      st_filter = (\<lambda>k kw st. Inr st),
      st_decimate = (\<lambda>k st. Inr st),
      st_write = (\<lambda>p f st w.
                    if st = [] then (Inl (LibraryError ''Can not write empty stream to file.''), w)
                    else (Inr (), w(p := Some st)))\<rparr>"

definition trace_at :: "real \<Rightarrow> trace" where
  "trace_at rate = \<lparr>tr_network = ''XX'', tr_station = ''STA'', tr_starttime = 0,
                      tr_endtime = 60, tr_sampling_rate = rate\<rparr>"

definition example_disk :: disk where
  "example_disk p =
     (if p = ''d/a.mseed'' then Some [trace_at 100]
      else if p = ''d/a.sac'' then Some [trace_at 50]
      else None)"


definition sac_args :: pf_args where
  "sac_args = \<lparr>detrend = True, taper = 0.05, filter_type = None, freqmin = None, freqmax = None,
                 freq = None, decimate_factor = None, remove_response = False,
                 inventory_path = None, output_format = ''SAC'', output_units = ''VEL''\<rparr>"

text \<open>
  For \<open>avo_analysis.py\<close>: a layer with a shear velocity of \<open>10 ^ 155\<close>, a heap holding the
  two layers of the script's usage example and that layer, and a \<open>np.polyfit\<close> that returns
  the coefficients 1 and 2 whatever it is given.
\<close>

definition huge_layer :: LayerProperties where
  "huge_layer = \<lparr>vp = 1, vs = 10 ^ 155, rho = 1\<rparr>"

definition example_heap :: heap where
  "example_heap ref =
     (if ref = 0 then \<lparr>vp = 3000, vs = 1500, rho = 2.4\<rparr>
      else if ref = 1 then \<lparr>vp = 3500, vs = 1800, rho = 2.5\<rparr>
      else huge_layer)"


text \<open>
  For \<open>validate_skills.py\<close>: a \<open>yaml.safe_load\<close> that knows one document, the scalar \<open>42\<close>
  between two newlines, a \<open>json.loads\<close> that returns a marketplace without plugins, a
  \<open>SKILL.md\<close> whose frontmatter is that scalar, and a repository with this one skill.
\<close>

definition stub_yaml :: "string \<Rightarrow> exn + pyval" where
  "stub_yaml s = (if s = [CHR 0x0A, CHR ''4'', CHR ''2'', CHR 0x0A] then Inr (PInt 42)
                  else Inl (LibraryError ''not modelled''))"

definition stub_json :: "string \<Rightarrow> exn + pyval" where
  "stub_json s = Inr (PDict [(PStr ''plugins'', PList [])])"

definition skill_md_42 :: string where
  "skill_md_42 = ''---'' @ [CHR 0x0A] @ ''42'' @ [CHR 0x0A] @ ''---'' @ [CHR 0x0A]"

definition repo_42 :: repo_root where
  "repo_42 = \<lparr>entries = [\<lparr>e_name = ''demo'', e_is_dir = True, e_skill_md = Some (Inr skill_md_42)\<rparr>],
              marketplace_json = Some (Inr ''{}'')\<rparr>"

text \<open>
  For \<open>las_to_csv.py\<close>: a library whose \<open>lasio.read\<close> raises on every file, a file system in
  which \<open>bad.las\<close> is a file, and the command line \<open>bad.las\<close>, without an output path.
\<close>

definition failing_lasio :: "(unit, unit, unit) lasio" where
  "failing_lasio =
     \<lparr>lasio_read = (\<lambda>p. Inl (LibraryError ''LASHeaderError: unknown section'')),
      las_df = (\<lambda>las. Inr ()),
      df_columns = (\<lambda>df. [''DEPT'']),
      df_select = (\<lambda>df cols. Inr ()),
      las_null_value = (\<lambda>las. Inr ()),
      to_float = (\<lambda>v. Inr (-999.25)),
      df_replace = (\<lambda>df x. Inr ()),
      df_to_csv = (\<lambda>df p. Inr ())\<rparr>"

definition las_fs :: path_ops where
  "las_fs =
     \<lparr>p_mkdir = (\<lambda>p. Inr ()),
      p_is_file = (\<lambda>p. p = ''bad.las''),
      p_is_dir = (\<lambda>p. False),
      p_glob = (\<lambda>d pat. Inr [])\<rparr>"

definition bad_las_args :: las_args where
  "bad_las_args = \<lparr>a_input = ''bad.las'', a_output = None, a_curves = None,
                    a_keep_null = False, a_output_dir = None\<rparr>"

text \<open>
  For \<open>dc_inversion.py\<close>: a SimPEG and a numpy whose calls all succeed; objects are numbered,
  and each call returns the object of its own number. For \<open>ert_inversion.py\<close>: a pyGIMLi whose
  \<open>invert\<close> returns the model \<open>[100, 50]\<close>. The world is the unit value.
\<close>

definition stub_simpeg :: "(unit, nat) simpeg" where
  "stub_simpeg =
     \<lparr>maps_ExpMap = (\<lambda>mesh w. (Inr 1, w)),
      dc_Simulation2DNodal = (\<lambda>mesh survey sigma_map w. (Inr 2, w)),
      L2DataMisfit = (\<lambda>d sim w. (Inr 3, w)),
      WeightedLeastSquares = (\<lambda>mesh a_s a_x a_y w. (Inr 4, w)),
      InexactGaussNewton = (\<lambda>max_iter max_iter_cg w. (Inr 5, w)),
      opt_remember = (\<lambda>opt name w. (Inr (), w)),
      BaseInvProblem = (\<lambda>dmis reg opt w. (Inr 6, w)),
      BetaEstimate_ByEig = (\<lambda>ratio w. (Inr 7, w)),
      BetaSchedule = (\<lambda>factor rate w. (Inr 8, w)),
      TargetMisfit = (\<lambda>chifact w. (Inr 9, w)),
      SaveOutputEveryIteration = (\<lambda>w. (Inr 10, w)),
      BaseInversion = (\<lambda>inv_prob dirs w. (Inr 11, w)),
      np_log = (\<lambda>x w. (Inr 12, w)),
      mesh_nC = (\<lambda>mesh w. (Inr 13, w)),
      np_ones = (\<lambda>n w. (Inr 14, w)),
      obj_mul = (\<lambda>x y w. (Inr (x + y), w)),
      inv_run = (\<lambda>inv m0 w. (Inr 15, w)),
      float_div = (\<lambda>x arr w. (Inr 17, w)),
      arr_min = (\<lambda>arr w. (Inr 18, w)),
      arr_max = (\<lambda>arr w. (Inr 19, w))\<rparr>"

definition stub_pygimli :: "(unit, unit, real list) pygimli" where
  "stub_pygimli =
     \<lparr>ERTManager = (\<lambda>d w. (Inr (), w)),
      mgr_setMesh = (\<lambda>mgr mesh w. (Inr (), w)),
      mgr_invert = (\<lambda>mgr lam z_weight robust max_iter verbose w. (Inr [100, 50], w)),
      inv_chi2 = (\<lambda>mgr w. (Inr 1, w)),
      inv_relrms = (\<lambda>mgr w. (Inr 3, w)),
      inv_iter = (\<lambda>mgr w. (Inr 5, w))\<rparr>"

section \<open>Properties of avo\_analysis.py\<close>

lemma py_div_nonzero: "b \<noteq> 0 \<Longrightarrow> py_div a b = Inr (a / b)"
  by (simp add: py_div_def)

lemma bindE_Inr [simp]: "bindE (Inr a) f = f a"
  by (simp add: bindE_def)

lemma bindE_Inl [simp]: "bindE (Inl e) f = Inl e"
  by (simp add: bindE_def)

lemma py_pow2_cases:
  "py_pow2 x = (if pow_overflows x then Inl (OverflowError ''(34, Numerical result out of range)'')
                else Inr (x ^ 2))"
  by (simp add: py_pow2_def)

lemma shuey_R0_G_in_range:
  assumes "vp_avg l1 l2 \<noteq> 0" "vs_avg l1 l2 \<noteq> 0" "rho_avg l1 l2 \<noteq> 0"
    and "\<not> pow_overflows (vs_avg l1 l2 / vp_avg l1 l2)"
  shows "shuey_R0_G l1 l2 =
           Inr (0.5 * ((vp l2 - vp l1) / vp_avg l1 l2 + (rho l2 - rho l1) / rho_avg l1 l2),
                0.5 * (vp l2 - vp l1) / vp_avg l1 l2
                  - 2 * (vs_avg l1 l2 / vp_avg l1 l2) ^ 2
                      * ((rho l2 - rho l1) / rho_avg l1 l2 + 2 * (vs l2 - vs l1) / vs_avg l1 l2))"
  using assms by (simp add: shuey_R0_G_def py_div_nonzero py_pow2_cases Let_def)

lemma shuey_R0_G_overflow:
  assumes "vp_avg l1 l2 \<noteq> 0" "rho_avg l1 l2 \<noteq> 0"
    and "pow_overflows (vs_avg l1 l2 / vp_avg l1 l2)"
  shows "shuey_R0_G l1 l2 = Inl (OverflowError ''(34, Numerical result out of range)'')"
  using assms by (simp add: shuey_R0_G_def py_div_nonzero py_pow2_cases Let_def)

lemma averages_nonzero:
  assumes "0 < vp l1" "0 < vs l1" "0 < rho l1" "0 < vp l2" "0 < vs l2" "0 < rho l2"
  shows "vp_avg l1 l2 \<noteq> 0" "vs_avg l1 l2 \<noteq> 0" "rho_avg l1 l2 \<noteq> 0"
  using assms by (simp_all add: vp_avg_def vs_avg_def rho_avg_def)

lemma example_in_range: "\<not> pow_overflows (33 / 65)"
proof -
  have "(33 / 65 :: real) ^ 2 \<le> 1" by (simp add: power2_eq_square)
  moreover have "(1 :: real) \<le> FLOAT_MAX" by (simp add: FLOAT_MAX_def)
  ultimately show ?thesis by (simp add: pow_overflows_def)
qed

lemma huge_overflows: "pow_overflows (10 ^ 155)"
  by (simp add: pow_overflows_def FLOAT_MAX_def)

lemma in_range_half: "x ^ 2 \<le> FLOAT_MAX / 2 \<Longrightarrow> \<not> pow_overflows x" for x :: real
proof -
  have "(0 :: real) < FLOAT_MAX" by (simp add: FLOAT_MAX_def)
  then have "FLOAT_MAX / 2 < FLOAT_MAX" by simp
  then show "x ^ 2 \<le> FLOAT_MAX / 2 \<Longrightarrow> \<not> pow_overflows x"
    by (simp add: pow_overflows_def)
qed

lemma out_of_range_twice:
  "\<bar>x\<bar> \<le> FLOAT_MAX / 2 \<Longrightarrow> 2 * FLOAT_MAX < x ^ 2 \<Longrightarrow> pow_overflows x" for x :: real
proof -
  have "(0 :: real) < FLOAT_MAX" by (simp add: FLOAT_MAX_def)
  then show "\<bar>x\<bar> \<le> FLOAT_MAX / 2 \<Longrightarrow> 2 * FLOAT_MAX < x ^ 2 \<Longrightarrow> pow_overflows x"
    by (simp add: pow_overflows_def)
qed

text \<open>
  C6. The call of \<open>shuey\<close> leaves the heap of layer objects as it found it, whatever the
  layers. For layers whose \<open>vp\<close>, \<open>vs\<close> and \<open>rho\<close> are all strictly positive, the three
  denominators \<open>vp_avg\<close>, \<open>vs_avg\<close> and \<open>rho_avg\<close> are nonzero, so no division raises, and
  \<open>shuey\<close> returns a reflectivity array, one value per angle, for every angle array, as long
  as the square \<open>(vs_avg / vp_avg) ** 2\<close> stays within the float range; beyond it the power
  operator raises \<open>OverflowError\<close>. Rounding is not modelled: the two bounds leave a factor of
  two on either side of the largest float, which covers the rounding of the averages and of
  the quotient, and the raising case asks that the sum of the two \<open>vs\<close> and the quotient be
  themselves within the float range (otherwise Python carries \<open>inf\<close>, whose square raises
  nothing).
\<close>

theorem shuey_positive_layers:
  "snd (shuey_call h ref1 ref2 theta) = h
   \<and> (0 < vp (h ref1) \<and> 0 < vs (h ref1) \<and> 0 < rho (h ref1)
        \<and> 0 < vp (h ref2) \<and> 0 < vs (h ref2) \<and> 0 < rho (h ref2) \<longrightarrow>
        vp_avg (h ref1) (h ref2) \<noteq> 0 \<and> vs_avg (h ref1) (h ref2) \<noteq> 0
        \<and> rho_avg (h ref1) (h ref2) \<noteq> 0
        \<and> ((vs_avg (h ref1) (h ref2) / vp_avg (h ref1) (h ref2)) ^ 2 \<le> FLOAT_MAX / 2 \<longrightarrow>
             (\<exists>Rpp. shuey_call h ref1 ref2 theta = (Inr Rpp, h) \<and> length Rpp = length theta))
        \<and> (vs (h ref1) + vs (h ref2) \<le> FLOAT_MAX
             \<and> vs_avg (h ref1) (h ref2) / vp_avg (h ref1) (h ref2) \<le> FLOAT_MAX / 2
             \<and> 2 * FLOAT_MAX < (vs_avg (h ref1) (h ref2) / vp_avg (h ref1) (h ref2)) ^ 2 \<longrightarrow>
             shuey_call h ref1 ref2 theta
               = (Inl (OverflowError ''(34, Numerical result out of range)''), h)))"
proof -
  let ?q = "vs_avg (h ref1) (h ref2) / vp_avg (h ref1) (h ref2)"
  have c: "snd (shuey_call h ref1 ref2 theta) = h"
    by (simp add: shuey_call_def)
  have p: "vp_avg (h ref1) (h ref2) \<noteq> 0 \<and> vs_avg (h ref1) (h ref2) \<noteq> 0
        \<and> rho_avg (h ref1) (h ref2) \<noteq> 0
        \<and> (?q ^ 2 \<le> FLOAT_MAX / 2 \<longrightarrow>
             (\<exists>Rpp. shuey_call h ref1 ref2 theta = (Inr Rpp, h) \<and> length Rpp = length theta))
        \<and> (vs (h ref1) + vs (h ref2) \<le> FLOAT_MAX \<and> ?q \<le> FLOAT_MAX / 2
             \<and> 2 * FLOAT_MAX < ?q ^ 2 \<longrightarrow>
             shuey_call h ref1 ref2 theta
               = (Inl (OverflowError ''(34, Numerical result out of range)''), h))"
    if pos: "0 < vp (h ref1)" "0 < vs (h ref1)" "0 < rho (h ref1)"
            "0 < vp (h ref2)" "0 < vs (h ref2)" "0 < rho (h ref2)"
  proof -
    note d = averages_nonzero [OF pos]
    have q0: "0 < ?q" using pos by (simp add: vs_avg_def vp_avg_def)
    have a: "\<exists>Rpp. shuey_call h ref1 ref2 theta = (Inr Rpp, h) \<and> length Rpp = length theta"
      if "?q ^ 2 \<le> FLOAT_MAX / 2"
      by (simp add: shuey_call_def shuey_def shuey_R0_G_in_range [OF d in_range_half [OF that]])
    have b: "shuey_call h ref1 ref2 theta
               = (Inl (OverflowError ''(34, Numerical result out of range)''), h)"
      if "?q \<le> FLOAT_MAX / 2" and "2 * FLOAT_MAX < ?q ^ 2"
    proof -
      have "\<bar>?q\<bar> \<le> FLOAT_MAX / 2" using q0 that(1) by simp
      then have "pow_overflows ?q" using that(2) by (rule out_of_range_twice)
      then show ?thesis
        by (simp add: shuey_call_def shuey_def shuey_R0_G_overflow [OF d(1) d(3)])
    qed
    show ?thesis using d a b by blast
  qed
  show ?thesis using c p by blast
qed

theorem shuey_positive_layers_witness:
  "(\<exists>Rpp. shuey_call example_heap 0 1 [0, 30] = (Inr Rpp, example_heap)
          \<and> length Rpp = length [0, 30 :: real])
   \<and> shuey_call example_heap 2 2 [0, 30]
       = (Inl (OverflowError ''(34, Numerical result out of range)''), example_heap)"
proof -
  have q1: "vs_avg (example_heap 0) (example_heap 1) / vp_avg (example_heap 0) (example_heap 1)
              = 33 / 65"
    by (simp add: example_heap_def vs_avg_def vp_avg_def)
  have q2: "vs_avg (example_heap 2) (example_heap 2) / vp_avg (example_heap 2) (example_heap 2)
              = 10 ^ 155"
    by (simp add: example_heap_def huge_layer_def vs_avg_def vp_avg_def)
  have r: "vs (example_heap 2) + vs (example_heap 2) \<le> FLOAT_MAX"
    by (simp add: example_heap_def huge_layer_def FLOAT_MAX_def)
  have p1: "0 < vp (example_heap 0)" "0 < vs (example_heap 0)" "0 < rho (example_heap 0)"
           "0 < vp (example_heap 1)" "0 < vs (example_heap 1)" "0 < rho (example_heap 1)"
    by (simp_all add: example_heap_def)
  have p2: "0 < vp (example_heap 2)" "0 < vs (example_heap 2)" "0 < rho (example_heap 2)"
    by (simp_all add: example_heap_def huge_layer_def)
  have s1: "(33 / 65 :: real) ^ 2 \<le> FLOAT_MAX / 2"
    by (simp add: FLOAT_MAX_def power2_eq_square)
  have s2: "(10 ^ 155 :: real) \<le> FLOAT_MAX / 2" "2 * FLOAT_MAX < (10 ^ 155 :: real) ^ 2"
    by (simp_all add: FLOAT_MAX_def)
  show ?thesis
    using shuey_positive_layers [of example_heap 0 1 "[0, 30]"]
          shuey_positive_layers [of example_heap 2 2 "[0, 30]"]
          p1 p2 r s1 s2
    unfolding q1 q2 by blast
qed

text \<open>
  C6 as stated fails at strictly positive layers: with \<open>vp = 1\<close>, \<open>vs = 10 ^ 155\<close> and
  \<open>rho = 1\<close> in both layers no denominator is zero, and \<open>shuey\<close> raises \<open>OverflowError\<close>.
\<close>

theorem shuey_overflow_counterexample:
  "0 < vp huge_layer \<and> 0 < vs huge_layer \<and> 0 < rho huge_layer
   \<and> shuey huge_layer huge_layer [0, 30]
       = Inl (OverflowError ''(34, Numerical result out of range)'')"
proof -
  have q: "vs_avg huge_layer huge_layer / vp_avg huge_layer huge_layer = 10 ^ 155"
    by (simp add: huge_layer_def vs_avg_def vp_avg_def)
  have d: "vp_avg huge_layer huge_layer \<noteq> 0" "rho_avg huge_layer huge_layer \<noteq> 0"
    by (simp_all add: huge_layer_def vp_avg_def rho_avg_def)
  have "shuey_R0_G huge_layer huge_layer = Inl (OverflowError ''(34, Numerical result out of range)'')"
    using shuey_R0_G_overflow [OF d] huge_overflows by (simp add: q)
  then show ?thesis by (simp add: shuey_def huge_layer_def)
qed

text \<open>
  C10. \<open>classify_avo\<close> is total: for every real intercept and gradient it returns the entry of
  the six-entry table selected by the band of the intercept (above 0.02, in the half-open
  interval from -0.02 to 0.02, or at most -0.02) and by whether the gradient is negative; the
  six entries are the six distinct class names.
\<close>

theorem classify_avo_table:
  "classify_avo i g = avo_table (intercept_band i) (g < 0)
   \<and> classify_avo i g \<in> set [''I'', ''I (anomalous)'', ''II'', ''IIp'', ''III'', ''IV'']
   \<and> [avo_table Above True, avo_table Above False, avo_table Middle True,
       avo_table Middle False, avo_table Below True, avo_table Below False]
      = [''I'', ''I (anomalous)'', ''II'', ''IIp'', ''III'', ''IV'']
   \<and> distinct [''I'', ''I (anomalous)'', ''II'', ''IIp'', ''III'', ''IV'']
   \<and> (intercept_band i = Above) = (0.02 < i)
   \<and> (intercept_band i = Middle) = (- 0.02 < i \<and> i \<le> 0.02)
   \<and> (intercept_band i = Below) = (i \<le> - 0.02)"
  by (simp add: classify_avo_def intercept_band_def)


subsection \<open>The linear fit of \<open>calculate_intercept_gradient\<close>\<close>







text \<open>
  C3, as the code has it. When \<open>bruges.reflection.zoeppritz\<close> is imported and returns, the
  script's \<open>zoeppritz\<close> returns that value, having passed it the six layer fields and
  \<open>theta\<close>; when the import raises \<open>ImportError\<close> the script's own Shuey approximation is
  returned instead.
\<close>

theorem zoeppritz_external_or_fallback:
  assumes "brg (vp l1) (vs l1) (rho l1) (vp l2) (vs l2) (rho l2) theta = Inr r"
  shows "zoeppritz (Inr brg) l1 l2 theta = Inr (External r)
         \<and> zoeppritz (Inl (ImportError m)) l1 l2 theta
             = bindE (shuey l1 l2 theta) (\<lambda>a. Inr (Approximation a))"
  using assms by (simp add: zoeppritz_def)

theorem zoeppritz_external_or_fallback_witness:
  "(\<lambda>a b c d e f th. Inr (map (\<lambda>t. a + t) th)) (3000::real) (1500::real) (2.4::real) (3500::real) (1800::real) (2.5::real) [0, 10]
     = (Inr [3000, 3010] :: exn + real list)
   \<and> zoeppritz (Inr (\<lambda>a b c d e f th. Inr (map (\<lambda>t. a + t) th)))
        \<lparr>vp = 3000, vs = 1500, rho = 2.4\<rparr> \<lparr>vp = 3500, vs = 1800, rho = 2.5\<rparr> [0, 10]
      = Inr (External [3000, 3010])"
proof -
  let ?brg = "\<lambda>(a::real) (b::real) (c::real) (d::real) (e::real) (f::real) th. (Inr (map (\<lambda>t. a + t) th) :: exn + real list)"
  let ?l1 = "\<lparr>vp = 3000, vs = 1500, rho = 2.4\<rparr>"
  let ?l2 = "\<lparr>vp = 3500, vs = 1800, rho = 2.5\<rparr>"
  have h: "?brg (vp ?l1) (vs ?l1) (rho ?l1) (vp ?l2) (vs ?l2) (rho ?l2) [0, 10] = Inr [3000, 3010]"
    by simp
  have "zoeppritz (Inr ?brg) ?l1 ?l2 [0, 10] = Inr (External [3000, 3010])"
    using zoeppritz_external_or_fallback [of ?brg ?l1 ?l2 "[0, 10]" "[3000, 3010]" "''none''"] h
    by blast
  then show ?thesis by simp
qed

text \<open>
  C3 as stated fails where \<open>bruges\<close> is not installed: the value returned is computed by the
  repository's \<open>shuey\<close>, here the intercept \<open>62 / 637\<close> at normal incidence.
\<close>

theorem zoeppritz_fallback_counterexample:
  "zoeppritz (Inl (ImportError ''No module named bruges'') :: exn + unit brg_zoeppritz)
     \<lparr>vp = 3000, vs = 1500, rho = 2.4\<rparr> \<lparr>vp = 3500, vs = 1800, rho = 2.5\<rparr> [0]
   = Inr (Approximation [62 / 637])"
proof -
  let ?l1 = "\<lparr>vp = 3000, vs = 1500, rho = 2.4\<rparr>"
  let ?l2 = "\<lparr>vp = 3500, vs = 1800, rho = 2.5\<rparr>"
  have d: "vp_avg ?l1 ?l2 \<noteq> 0" "vs_avg ?l1 ?l2 \<noteq> 0" "rho_avg ?l1 ?l2 \<noteq> 0"
    by (simp_all add: vp_avg_def vs_avg_def rho_avg_def)
  have q: "vs_avg ?l1 ?l2 / vp_avg ?l1 ?l2 = 33 / 65"
    by (simp add: vs_avg_def vp_avg_def)
  have r: "\<not> pow_overflows (vs_avg ?l1 ?l2 / vp_avg ?l1 ?l2)"
    unfolding q by (rule example_in_range)
  have s: "shuey ?l1 ?l2 [0] = Inr [62 / 637]"
    unfolding shuey_def shuey_R0_G_in_range [OF d r]
    by (simp add: vp_avg_def rho_avg_def deg2rad_def)
  show ?thesis unfolding zoeppritz_def s by simp
qed

section \<open>Properties of batch\_process.py\<close>

subsection \<open>Tasks that do not meet in the world\<close>








lemma process_file_fst_snd:
  "fst (process_file lib f output_dir a w) = result_of f (fst (process_stream lib f output_dir a w))"
  "snd (process_file lib f output_dir a w) = snd (process_stream lib f output_dir a w)"
  by (simp_all add: process_file_def split: prod.splits)









subsection \<open>The pool has a run\<close>

lemma completed_not_running:
  "list_all (\<lambda>t. future_result t \<noteq> None) cs \<Longrightarrow> filter is_running cs = [] \<and> filter is_submitted cs = []"
proof (induction cs)
  case Nil
  show ?case by simp
next
  case (Cons c cs)
  then show ?case by (cases c) simp_all
qed

lemma those_results_completed:
  "list_all (\<lambda>t. future_result t \<noteq> None) cs \<Longrightarrow> \<exists>rs. those_results cs = Some rs"
proof (induction cs)
  case Nil
  show ?case by simp
next
  case (Cons c cs)
  then show ?case by (cases c) auto
qed

lemma advance_thrice:
  "\<exists>r1 r2 res w'. advance lib output_dir a f Submitted w = (HasRead r1, w)
     \<and> advance lib output_dir a f (HasRead r1) w = (Processed r2, w)
     \<and> advance lib output_dir a f (Processed r2) w = (Completed res, w')"
  by (auto simp add: advance_def split: sum.splits prod.splits)

lemma pool_run_in_turn:
  assumes w: "1 \<le> workers"
  shows "list_all (\<lambda>t. future_result t \<noteq> None) cs \<Longrightarrow> length pre = length cs \<Longrightarrow>
         \<exists>ts' w'. pool_run lib output_dir a workers (pre @ rest)
                     (concat (map (\<lambda>i. [i, i, i]) [length cs ..< length cs + length rest]))
                     (cs @ map (\<lambda>f. Submitted) rest) w = Some (ts', w')
                   \<and> list_all (\<lambda>t. future_result t \<noteq> None) ts'"
proof (induction rest arbitrary: cs pre w)
  case Nil
  then show ?case by simp
next
  case (Cons f rest)
  let ?i = "length cs"
  let ?files = "pre @ f # rest"
  let ?tail = "map (\<lambda>f. Submitted) rest"
  obtain r1 r2 res w' where
    a1: "advance lib output_dir a f Submitted w = (HasRead r1, w)" and
    a2: "advance lib output_dir a f (HasRead r1) w = (Processed r2, w)" and
    a3: "advance lib output_dir a f (Processed r2) w = (Completed res, w')"
    using advance_thrice [of lib output_dir a f w] by blast
  have nr: "filter is_running cs = []" "filter is_submitted cs = []"
    using completed_not_running [OF Cons.prems(1)] by simp_all
  have tail_nr: "filter is_running ?tail = []"
    by (induction rest) simp_all
  have fi: "?files ! ?i = f" using Cons.prems(2) by (simp add: nth_append)
  have il: "?i < length ?files" using Cons.prems(2) by simp
  have m1: "may_move workers (cs @ Submitted # ?tail) ?i"
    using w nr tail_nr by (simp add: may_move_def nth_append)
  have m2: "may_move workers (cs @ HasRead r1 # ?tail) ?i"
    by (simp add: may_move_def nth_append)
  have m3: "may_move workers (cs @ Processed r2 # ?tail) ?i"
    by (simp add: may_move_def nth_append)
  have sched: "concat (map (\<lambda>i. [i, i, i]) [?i ..< ?i + length (f # rest)])
                 = ?i # ?i # ?i # concat (map (\<lambda>i. [i, i, i]) [Suc ?i ..< Suc ?i + length rest])"
    by (simp add: upt_rec)
  have cs': "list_all (\<lambda>t. future_result t \<noteq> None) (cs @ [Completed res])"
    using Cons.prems(1) by simp
  have len': "length (pre @ [f]) = length (cs @ [Completed res])"
    using Cons.prems(2) by simp
  obtain ts' w'' where
    ih: "pool_run lib output_dir a workers ((pre @ [f]) @ rest)
           (concat (map (\<lambda>i. [i, i, i]) [length (cs @ [Completed res]) ..< length (cs @ [Completed res]) + length rest]))
           ((cs @ [Completed res]) @ ?tail) w' = Some (ts', w'')"
    and fin: "list_all (\<lambda>t. future_result t \<noteq> None) ts'"
    using Cons.IH [OF cs' len', of w'] by blast
  have "pool_run lib output_dir a workers ?files
          (concat (map (\<lambda>i. [i, i, i]) [?i ..< ?i + length (f # rest)]))
          (cs @ map (\<lambda>f. Submitted) (f # rest)) w = Some (ts', w'')"
    unfolding sched using m1 m2 m3 il fi a1 a2 a3 ih
    by (simp add: nth_append list_update_append)
  then show ?case using fin by blast
qed

lemma pool_admits_a_schedule:
  assumes "1 \<le> workers"
  shows "\<exists>schedule results w'.
           run_files lib as_completed schedule files output_dir workers a w = Some (Inr results, w')"
proof (cases "files = [] \<or> workers = 1")
  case True
  then show ?thesis by (auto simp add: run_files_def split: prod.splits)
next
  case False
  obtain ts' w' where
    pr: "pool_run lib output_dir a workers ([] @ files)
           (concat (map (\<lambda>i. [i, i, i]) [length ([] :: task list) ..< length ([] :: task list) + length files]))
           ([] @ map (\<lambda>f. Submitted) files) w = Some (ts', w')"
    and fin: "list_all (\<lambda>t. future_result t \<noteq> None) ts'"
    using pool_run_in_turn [OF assms, of "[]" "[]" lib output_dir a files w] by auto
  obtain rs where "those_results ts' = Some rs"
    using those_results_completed [OF fin] by blast
  then show ?thesis using pr False assms
    by (auto simp add: run_files_def Let_def intro!: exI [of _ "concat (map (\<lambda>i. [i, i, i]) [0 ..< length files])"])
qed

subsection \<open>The result dict\<close>

lemma record_output_cases:
  "record_output r st out =
     (case st of
        [] \<Rightarrow> (r\<lparr>r_output := Some out, r_n_traces := Some 0\<rparr>, Some (IndexError ''list index out of range''))
      | t # ts \<Rightarrow> (r\<lparr>r_output := Some out, r_n_traces := Some (length st),
                      r_sampling_rate := Some (tr_sampling_rate t),
                      r_duration := Some (tr_endtime t - tr_starttime t)\<rparr>, None))"
  by (simp add: record_output_def st0_def Let_def split: list.splits)

lemma result_of_raise:
  "result_of filepath (Inl e) =
     \<lparr>r_file = filepath, r_status = ''error'', r_output = None, r_error = Some (str_exn e),
      r_n_traces = None, r_sampling_rate = None, r_duration = None\<rparr>"
  by (simp add: result_of_def)

lemma result_of_empty:
  "result_of filepath (Inr ([], out)) =
     \<lparr>r_file = filepath, r_status = ''error'', r_output = Some out,
      r_error = Some ''list index out of range'',
      r_n_traces = Some 0, r_sampling_rate = None, r_duration = None\<rparr>"
  by (simp add: result_of_def record_output_cases)

lemma result_of_ok:
  "result_of filepath (Inr (t # ts, out)) =
     \<lparr>r_file = filepath, r_status = ''success'', r_output = Some out, r_error = None,
      r_n_traces = Some (Suc (length ts)), r_sampling_rate = Some (tr_sampling_rate t),
      r_duration = Some (tr_endtime t - tr_starttime t)\<rparr>"
  by (simp add: result_of_def record_output_cases)

lemma write_stage_nonempty:
  assumes "\<And>p fmt w. \<exists>e. fst (st_write lib p fmt [] w) = Inl e"
    and "write_stage lib filepath output_dir a st w = (Inr (st', out), w')"
  shows "st' \<noteq> []"
proof
  assume e: "st' = []"
  have s: "st' = st" using assms(2)
    by (auto simp add: write_stage_def Let_def split: prod.splits sum.splits)
  obtain x where "fst (st_write lib (output_file_of output_dir a filepath) (output_format a) [] w) = Inl x"
    using assms(1) by blast
  then show False using assms(2) e s
    by (auto simp add: write_stage_def Let_def split: prod.splits sum.splits)
qed

lemma process_stream_nonempty:
  assumes "\<And>p fmt w. \<exists>e. fst (st_write lib p fmt [] w) = Inl e"
    and "fst (process_stream lib filepath output_dir a w) = Inr (st, out)"
  shows "st \<noteq> []"
proof (cases "bindE (read_stage lib filepath a w) (\<lambda>st. response_stage lib a st w)")
  case (Inl e)
  then show ?thesis using assms(2) by (simp add: process_stream_def)
next
  case (Inr s)
  obtain w' where "write_stage lib filepath output_dir a s w = (Inr (st, out), w')"
    using assms(2) Inr by (cases "write_stage lib filepath output_dir a s w") (simp add: process_stream_def)
  then show ?thesis by (rule write_stage_nonempty [OF assms(1)])
qed

text \<open>
  C8. \<open>process_file\<close> catches every exception of its \<open>try\<close> block, so it always returns
  its dict. The status is \<open>"success"\<close> or \<open>"error"\<close>, and the error field is set exactly when
  the status is \<open>"error"\<close>, whatever the library does. The output field is set only when the
  status is \<open>"success"\<close>, given that \<open>st.write\<close> raises on a stream without traces, as obspy's
  does: once the file is written, \<open>st[0]\<close> on lines 122 and 123 cannot raise.
\<close>

theorem process_file_result:
  "(r_status (fst (process_file lib filepath output_dir a w)) = ''success''
      \<or> r_status (fst (process_file lib filepath output_dir a w)) = ''error'')
   \<and> (r_error (fst (process_file lib filepath output_dir a w)) \<noteq> None)
       = (r_status (fst (process_file lib filepath output_dir a w)) = ''error'')
   \<and> ((\<forall>p fmt w. \<exists>e. fst (st_write lib p fmt [] w) = Inl e) \<longrightarrow>
        r_output (fst (process_file lib filepath output_dir a w)) \<noteq> None \<longrightarrow>
        r_status (fst (process_file lib filepath output_dir a w)) = ''success'')"
proof (cases "fst (process_stream lib filepath output_dir a w)")
  case (Inl e)
  show ?thesis by (simp add: process_file_fst_snd Inl result_of_raise)
next
  case (Inr p)
  obtain st out where p: "p = (st, out)" by (cases p)
  show ?thesis
  proof (cases st)
    case Nil
    have "\<not> (\<forall>p fmt w. \<exists>e. fst (st_write lib p fmt [] w) = Inl e)"
    proof
      assume h: "\<forall>p fmt w. \<exists>e. fst (st_write lib p fmt [] w) = Inl e"
      have "st \<noteq> []" using process_stream_nonempty [of lib filepath output_dir a w st out] h Inr p
        by blast
      then show False using Nil by simp
    qed
    then show ?thesis by (simp add: process_file_fst_snd Inr p Nil result_of_empty)
  next
    case (Cons t ts)
    show ?thesis by (simp add: process_file_fst_snd Inr p Cons result_of_ok)
  qed
qed

lemma disk_refuses_empty: "\<exists>e. fst (st_write disk_obspy p fmt [] w) = Inl e"
  by (simp add: disk_obspy_def)

lemma disk_process_stream:
  assumes "w f = Some (t # ts)"
  shows "process_stream disk_obspy f output_dir sac_args w
           = (Inr (t # ts, output_file_of output_dir sac_args f),
              w(output_file_of output_dir sac_args f := Some (t # ts)))"
  using assms
  by (simp add: process_stream_def read_stage_def response_stage_def write_stage_def
        apply_filter_def disk_obspy_def sac_args_def Let_def)

lemma disk_process_file:
  assumes "w f = Some (t # ts)"
  shows "process_file disk_obspy f output_dir sac_args w
           = (\<lparr>r_file = f, r_status = ''success'',
               r_output = Some (output_file_of output_dir sac_args f), r_error = None,
               r_n_traces = Some (Suc (length ts)), r_sampling_rate = Some (tr_sampling_rate t),
               r_duration = Some (tr_endtime t - tr_starttime t)\<rparr>,
              w(output_file_of output_dir sac_args f := Some (t # ts)))"
  by (simp add: process_file_def disk_process_stream [of w f t ts output_dir, OF assms] result_of_ok)

lemma output_files:
  "output_file_of ''processed'' sac_args ''d/a.mseed'' = ''processed/a.sac''"
  "output_file_of ''processed'' sac_args ''d/a.sac'' = ''processed/a.sac''"
  "output_file_of ''d'' sac_args ''d/a.mseed'' = ''d/a.sac''"
  "output_file_of ''d'' sac_args ''d/a.sac'' = ''d/a.sac''"
  by (simp_all add: output_file_of_def sac_args_def ext_map_def path_join_def path_stem_def
        path_name_def Let_def)

theorem process_file_result_witness:
  "(\<forall>p fmt w. \<exists>e. fst (st_write disk_obspy p fmt [] w) = Inl e)
   \<and> r_output (fst (process_file disk_obspy ''d/a.mseed'' ''processed'' sac_args example_disk))
       = Some ''processed/a.sac''
   \<and> r_status (fst (process_file disk_obspy ''d/a.mseed'' ''processed'' sac_args example_disk))
       = ''success''
   \<and> r_error (fst (process_file disk_obspy ''d/a.mseed'' ''processed'' sac_args example_disk))
       = None"
proof -
  have o: "r_output (fst (process_file disk_obspy ''d/a.mseed'' ''processed'' sac_args example_disk))
             = Some ''processed/a.sac''"
    by (simp add: disk_process_file [of example_disk "''d/a.mseed''" "trace_at 100" "[]"]
          example_disk_def output_files)
  show ?thesis
    using process_file_result [of disk_obspy "''d/a.mseed''" "''processed''" sac_args example_disk]
          o disk_refuses_empty
    by auto
qed

subsection \<open>\<open>batch_process\<close> and the order of the tasks\<close>












section \<open>Properties of validate\_skills.py\<close>

lemma tally_skills_mapE:
  "tally_skills safe_load ds (e, w) =
     bindE (mapE (\<lambda>d. validate_skill safe_load (read_skill_md d)) ds) (\<lambda>per_skill.
       Inr (e + count_level ERROR (concat per_skill), w + count_level WARN (concat per_skill)))"
proof (induction ds arbitrary: e w)
  case Nil
  show ?case by (simp add: count_level_def)
next
  case (Cons d ds)
  show ?case
  proof (cases "validate_skill safe_load (read_skill_md d)")
    case (Inl x)
    then show ?thesis by simp
  next
    case (Inr issues)
    show ?thesis
    proof (cases "mapE (\<lambda>d. validate_skill safe_load (read_skill_md d)) ds")
      case (Inl x)
      then show ?thesis using Inr Cons.IH by simp
    next
      case rest: (Inr per)
      then show ?thesis using Inr Cons.IH by (simp add: count_level_def)
    qed
  qed
qed

lemma count_level_append:
  "count_level l (xs @ ys) = count_level l xs + count_level l ys"
  by (simp add: count_level_def)

lemma script_exit_status:
  "validate_skills_script safe_load json_loads argv repo =
     (case issues_found safe_load json_loads repo of
        Inl e \<Rightarrow> 1
      | Inr issues \<Rightarrow> if find_skill_dirs repo = [] \<or> 0 < count_level ERROR issues then 1 else 0)"
proof (cases "find_skill_dirs repo = []")
  case True
  then show ?thesis
    by (simp add: validate_skills_script_def main_def issues_found_def split: sum.splits)
next
  case False
  show ?thesis
  proof (cases "mapE (\<lambda>d. validate_skill safe_load (read_skill_md d)) (find_skill_dirs repo)")
    case (Inl x)
    then show ?thesis using False
      by (simp add: validate_skills_script_def main_def issues_found_def tally_skills_mapE)
  next
    case per: (Inr per_skill)
    show ?thesis
    proof (cases "validate_marketplace json_loads (marketplace_json repo)
                    (remdups (map e_name (find_skill_dirs repo)))")
      case (Inl x)
      then show ?thesis using False per
        by (simp add: validate_skills_script_def main_def issues_found_def tally_skills_mapE)
    next
      case (Inr mp_issues)
      then show ?thesis using False per
        by (simp add: validate_skills_script_def main_def issues_found_def tally_skills_mapE
                      count_level_append Let_def)
    qed
  qed
qed

lemma parse_frontmatter_42: "parse_frontmatter stub_yaml skill_md_42 = PInt 42"
  by (simp add: parse_frontmatter_def skill_md_42_def stub_yaml_def eval_nat_numeral Let_def)

lemma validate_skill_42:
  "validate_skill stub_yaml (Inr skill_md_42) = Inl (TypeError ''argument of type int is not iterable'')"
  by (simp add: validate_skill_def parse_frontmatter_42 Let_def)

lemma find_skill_dirs_42: "find_skill_dirs repo_42 = entries repo_42"
  by (simp add: find_skill_dirs_def repo_42_def SKIP_DIRS_def)

lemma issues_found_42:
  "issues_found stub_yaml stub_json repo_42 = Inl (TypeError ''argument of type int is not iterable'')"
  by (simp add: issues_found_def find_skill_dirs_42)
     (simp add: repo_42_def read_skill_md_def validate_skill_42)

text \<open>
  C9. The exit status of \<open>validate_skills.py\<close>. On a run in which no exception leaves \<open>main\<close>
  the status is 1 exactly when no skill directory was found or some issue of level \<open>ERROR\<close>
  was found among the skills and the marketplace check, and 0 otherwise, so warnings alone
  give 0. A run in which \<open>validate_skill\<close> or \<open>validate_marketplace\<close> raises ends with status
  1 as well, whatever had been found: nothing in \<open>main\<close> catches the exception.
\<close>

theorem validate_skills_exit_status:
  "validate_skills_script safe_load json_loads argv repo =
     (case issues_found safe_load json_loads repo of
        Inl e \<Rightarrow> 1
      | Inr issues \<Rightarrow> if find_skill_dirs repo = [] \<or> 0 < count_level ERROR issues then 1 else 0)"
  by (rule script_exit_status)

text \<open>
  A skill whose frontmatter is the YAML scalar \<open>42\<close>: \<open>"_error" in fm\<close> raises \<open>TypeError\<close>,
  the run ends with status 1, a skill directory exists and no issue of any level was
  returned.
\<close>

theorem validate_skills_crash_exit:
  "find_skill_dirs repo_42 \<noteq> []
   \<and> issues_found stub_yaml stub_json repo_42
       = Inl (TypeError ''argument of type int is not iterable'')
   \<and> main stub_yaml stub_json repo_42 = Inl (TypeError ''argument of type int is not iterable'')
   \<and> validate_skills_script stub_yaml stub_json [] repo_42 = 1"
proof -
  have m: "main stub_yaml stub_json repo_42 = Inl (TypeError ''argument of type int is not iterable'')"
    by (simp add: main_def find_skill_dirs_42 Let_def)
       (simp add: repo_42_def read_skill_md_def validate_skill_42)
  have d: "find_skill_dirs repo_42 \<noteq> []"
    by (simp add: find_skill_dirs_42) (simp add: repo_42_def)
  show ?thesis using m d issues_found_42 by (simp add: validate_skills_script_def)
qed


section \<open>Properties of las\_to\_csv.py\<close>

lemma las_to_csv_read_Inl:
  "lasio_read lib las_path = Inl e \<Longrightarrow> las_to_csv lib las_path csv_path curves replace_null = Inl e"
  by (simp add: las_to_csv_def)

lemma with_suffix_named:
  "path_name p \<noteq> [] \<Longrightarrow> \<exists>q. with_suffix p sfx = Inr q"
  by (simp add: with_suffix_def)

text \<open>
  C5, as the code has it. \<open>lasio.read\<close> is called outside any \<open>try\<close> block: when it raises,
  \<open>las_to_csv\<close> raises the same exception to its caller, whatever its other arguments. \<open>main\<close>,
  called on that file, prints no line and is left by an exception instead of ending with an
  exit status; the exception is that of \<open>lasio.read\<close> whenever the path has a final
  component or an output path is given.
\<close>

theorem las_to_csv_read_raises:
  assumes "lasio_read lib (a_input a) = Inl e"
  shows "las_to_csv lib (a_input a) csv_path curves replace_null = Inl e
         \<and> (p_is_file fs (a_input a) \<longrightarrow>
              fst (las_to_csv_main fs lib a) = []
              \<and> (\<exists>raised. snd (las_to_csv_main fs lib a) = Inl raised)
              \<and> (path_name (a_input a) \<noteq> [] \<or> (\<exists>out. a_output a = Some out \<and> out \<noteq> [])
                   \<longrightarrow> las_to_csv_main fs lib a = ([], Inl e)))"
proof -
  have r: "\<And>csv_path curves replace_null.
             las_to_csv lib (a_input a) csv_path curves replace_null = Inl e"
    by (rule las_to_csv_read_Inl [OF assms(1)])
  have main_file: "fst (las_to_csv_main fs lib a) = []
              \<and> (\<exists>raised. snd (las_to_csv_main fs lib a) = Inl raised)
              \<and> (path_name (a_input a) \<noteq> [] \<or> (\<exists>out. a_output a = Some out \<and> out \<noteq> [])
                   \<longrightarrow> las_to_csv_main fs lib a = ([], Inl e))"
    if f: "p_is_file fs (a_input a)"
  proof -
    have m: "las_to_csv_main fs lib a =
               ([], case (case a_output a of
                            None \<Rightarrow> with_suffix (a_input a) ''.csv''
                          | Some out \<Rightarrow> if out = [] then with_suffix (a_input a) ''.csv'' else Inr out) of
                      Inl x \<Rightarrow> Inl x
                    | Inr output \<Rightarrow> Inl e)"
      using f by (simp add: las_to_csv_main_def Let_def r bindE_def split: sum.splits)
    have 1: "fst (las_to_csv_main fs lib a) = []" by (simp add: m)
    have 2: "\<exists>raised. snd (las_to_csv_main fs lib a) = Inl raised"
      by (simp add: m split: sum.splits option.splits)
    have 3: "las_to_csv_main fs lib a = ([], Inl e)"
      if "path_name (a_input a) \<noteq> [] \<or> (\<exists>out. a_output a = Some out \<and> out \<noteq> [])"
    proof (cases "\<exists>out. a_output a = Some out \<and> out \<noteq> []")
      case True
      then show ?thesis by (auto simp add: m)
    next
      case False
      then have n: "path_name (a_input a) \<noteq> []" using that by blast
      obtain q where "with_suffix (a_input a) ''.csv'' = Inr q"
        using with_suffix_named [OF n] by blast
      then show ?thesis by (simp add: m split: option.splits)
    qed
    show ?thesis using 1 2 3 by blast
  qed
  show ?thesis using r main_file by blast
qed

theorem las_to_csv_read_raises_witness:
  "lasio_read failing_lasio (a_input bad_las_args)
     = Inl (LibraryError ''LASHeaderError: unknown section'')
   \<and> p_is_file las_fs (a_input bad_las_args)
   \<and> las_to_csv failing_lasio (a_input bad_las_args) None None True
       = Inl (LibraryError ''LASHeaderError: unknown section'')
   \<and> las_to_csv_main las_fs failing_lasio bad_las_args
       = ([], Inl (LibraryError ''LASHeaderError: unknown section''))"
proof -
  have h1: "lasio_read failing_lasio (a_input bad_las_args)
              = Inl (LibraryError ''LASHeaderError: unknown section'')"
    by (simp add: failing_lasio_def)
  have h2: "p_is_file las_fs (a_input bad_las_args)"
    by (simp add: las_fs_def bad_las_args_def)
  have h3: "path_name (a_input bad_las_args) \<noteq> []"
    by (simp add: bad_las_args_def path_name_def)
  show ?thesis
    using las_to_csv_read_raises [OF h1, of None None True las_fs] h1 h2 h3 by blast
qed

text \<open>
  C5 as stated fails: the conversion of \<open>bad.las\<close> with a \<open>lasio.read\<close> that raises. \<open>las_to_csv\<close>
  raises, and the run of \<open>main\<close> has printed no line and ends with the exception, not with an
  exit status.
\<close>

theorem las_to_csv_propagates_counterexample:
  "las_to_csv failing_lasio ''bad.las'' None None True
     = Inl (LibraryError ''LASHeaderError: unknown section'')
   \<and> las_to_csv_main las_fs failing_lasio bad_las_args
       = ([], Inl (LibraryError ''LASHeaderError: unknown section''))"
  by (simp add: las_to_csv_def las_to_csv_main_def failing_lasio_def las_fs_def bad_las_args_def
        with_suffix_def path_name_def path_stem_def Let_def)

section \<open>Properties of dc\_inversion.py and ert\_inversion.py\<close>

lemma bindP_InrE:
  assumes "bindP m f w = (Inr b, w', calls)"
  obtains a w1 c1 c2 where "m w = (Inr a, w1, c1)" and "f a w1 = (Inr b, w', c2)"
    and "calls = c1 @ c2"
  using assms by (auto simp add: bindP_def split: prod.splits sum.splits)

lemma ext_callE:
  assumes "ext_call name g w = (r, w', c)"
  obtains "g w = (r, w')" and "c = [name]"
  using assms by (auto simp add: ext_call_def split: prod.splits)

lemma returnPE:
  assumes "returnP a w = (Inr b, w', c)"
  obtains "b = a" and "w' = w" and "c = []"
  using assms by (auto simp add: returnP_def)

lemma method_calls_simps:
  "method_calls m [] = 0"
  "method_calls m (c # cs) = (if snd c = m then 1 else 0) + method_calls m cs"
  "method_calls m (xs @ ys) = method_calls m xs + method_calls m ys"
  by (simp_all add: method_calls_def)

lemma no_call_bindP:
  assumes "\<And>w. method_calls m (snd (snd (p w))) = 0"
    and "\<And>a w. method_calls m (snd (snd (f a w))) = 0"
  shows "method_calls m (snd (snd (bindP p f w))) = 0"
proof (cases "p w")
  case (fields r w1 c1)
  have c1: "method_calls m c1 = 0" using assms(1) [of w] fields by simp
  show ?thesis
  proof (cases r)
    case (Inl e)
    then show ?thesis using fields c1 by (simp add: bindP_def)
  next
    case (Inr x)
    obtain r2 w2 c2 where f: "f x w1 = (r2, w2, c2)" by (cases "f x w1")
    have "method_calls m c2 = 0" using assms(2) [of x w1] f by simp
    then show ?thesis using fields Inr f c1 by (simp add: bindP_def method_calls_simps)
  qed
qed

lemma no_call_ext:
  "snd name \<noteq> m \<Longrightarrow> method_calls m (snd (snd (ext_call name g w))) = 0"
  by (simp add: ext_call_def method_calls_simps split: prod.splits)

lemma no_call_return: "method_calls m (snd (snd (returnP a w))) = 0"
  by (simp add: returnP_def method_calls_simps)

lemma dc_no_invert:
  "method_calls ''invert'' (snd (snd (dc_run_inversion lib mesh survey obs_data max_iter w))) = 0"
  unfolding dc_run_inversion_def Let_def
  by (intro no_call_bindP no_call_ext no_call_return) simp_all

lemma dc_returning_run:
  assumes "dc_run_inversion lib mesh survey obs_data max_iter w = (Inr rho_rec, w', calls)"
  shows "calls = [(''maps'', ''ExpMap''), (''dc'', ''Simulation2DNodal''),
                   (''data_misfit'', ''L2DataMisfit''), (''regularization'', ''WeightedLeastSquares''),
                   (''optimization'', ''InexactGaussNewton''), (''opt'', ''remember''),
                   (''inverse_problem'', ''BaseInvProblem''), (''directives'', ''BetaEstimate_ByEig''),
                   (''directives'', ''BetaSchedule''), (''directives'', ''TargetMisfit''),
                   (''directives'', ''SaveOutputEveryIteration''), (''inversion'', ''BaseInversion''),
                   (''np'', ''log''), (''mesh'', ''nC''), (''np'', ''ones''),
                   (''np.float64'', ''__mul__''), (''inv'', ''run''), (''sigma_map'', ''__mul__''),
                   (''sigma_rec'', ''__rtruediv__''), (''rho_rec'', ''min''), (''rho_rec'', ''max'')]
    \<and> (\<exists>sigma_map simulation dmis reg opt inv_prob starting_beta beta_schedule target_misfit
          save_iteration inv log_sigma nC ones m0 mrec sigma_rec lo hi
          w1 w2 w3 w4 w5 w6 w7 w8 w9 w10 w11 w12 w13 w14 w15 w16 w17 w18 w19 w20.
          maps_ExpMap lib mesh w = (Inr sigma_map, w1)
        \<and> dc_Simulation2DNodal lib mesh survey sigma_map w1 = (Inr simulation, w2)
        \<and> L2DataMisfit lib obs_data simulation w2 = (Inr dmis, w3)
        \<and> WeightedLeastSquares lib mesh (1 / 100) 1 1 w3 = (Inr reg, w4)
        \<and> InexactGaussNewton lib max_iter 20 w4 = (Inr opt, w5)
        \<and> opt_remember lib opt ''xc'' w5 = (Inr (), w6)
        \<and> BaseInvProblem lib dmis reg opt w6 = (Inr inv_prob, w7)
        \<and> BetaEstimate_ByEig lib 10 w7 = (Inr starting_beta, w8)
        \<and> BetaSchedule lib 2 1 w8 = (Inr beta_schedule, w9)
        \<and> TargetMisfit lib 1 w9 = (Inr target_misfit, w10)
        \<and> SaveOutputEveryIteration lib w10 = (Inr save_iteration, w11)
        \<and> BaseInversion lib inv_prob [starting_beta, beta_schedule, target_misfit, save_iteration] w11
            = (Inr inv, w12)
        \<and> np_log lib (1 / 100) w12 = (Inr log_sigma, w13)
        \<and> mesh_nC lib mesh w13 = (Inr nC, w14)
        \<and> np_ones lib nC w14 = (Inr ones, w15)
        \<and> obj_mul lib log_sigma ones w15 = (Inr m0, w16)
        \<and> inv_run lib inv m0 w16 = (Inr mrec, w17)
        \<and> obj_mul lib sigma_map mrec w17 = (Inr sigma_rec, w18)
        \<and> float_div lib 1 sigma_rec w18 = (Inr rho_rec, w19)
        \<and> arr_min lib rho_rec w19 = (Inr lo, w20)
        \<and> arr_max lib rho_rec w20 = (Inr hi, w'))"
  using assms unfolding dc_run_inversion_def Let_def
  apply (elim bindP_InrE ext_callE returnPE)
  apply hypsubst
  apply (rule conjI)
   apply simp
  apply (intro exI conjI)
                      apply assumption+
                 apply simp
                apply assumption+
  done

lemma ert_returning_run:
  assumes "ert_run_inversion lib dat mesh lam z_weight robust max_iter verbose w
             = (Inr (mgr, model), w', calls)"
  shows "calls = [(''ert'', ''ERTManager'')]
                 @ (case mesh of None \<Rightarrow> [] | Some m \<Rightarrow> [(''mgr'', ''setMesh'')])
                 @ [(''mgr'', ''invert''), (''mgr.inv'', ''chi2''), (''mgr.inv'', ''relrms''),
                    (''mgr.inv'', ''iter'')]
         \<and> (\<exists>chi2 rms iterations w1 w2 w3 w4 w5.
               ERTManager lib dat w = (Inr mgr, w1)
             \<and> (case mesh of None \<Rightarrow> w2 = w1
                            | Some m \<Rightarrow> mgr_setMesh lib mgr m w1 = (Inr (), w2))
             \<and> mgr_invert lib mgr lam z_weight robust max_iter verbose w2 = (Inr model, w3)
             \<and> inv_chi2 lib mgr w3 = (Inr chi2, w4)
             \<and> inv_relrms lib mgr w4 = (Inr rms, w5)
             \<and> inv_iter lib mgr w5 = (Inr iterations, w'))"
proof (cases mesh)
  case None
  show ?thesis
    using assms unfolding ert_run_inversion_def None option.case
    apply (elim bindP_InrE ext_callE returnPE)
    apply hypsubst
    apply (rule conjI)
     apply simp
    apply (intro exI conjI)
         apply (assumption | simp)+
    done
next
  case (Some m)
  show ?thesis
    using assms unfolding ert_run_inversion_def Some option.case
    apply (elim bindP_InrE ext_callE returnPE)
    apply hypsubst
    apply (rule conjI)
     apply simp
    apply (intro exI conjI)
         apply (assumption | simp)+
    done
qed

lemma dc_stub_run:
  "dc_run_inversion stub_simpeg 0 0 0 20 () =
     (Inr 17, (),
      [(''maps'', ''ExpMap''), (''dc'', ''Simulation2DNodal''),
       (''data_misfit'', ''L2DataMisfit''), (''regularization'', ''WeightedLeastSquares''),
       (''optimization'', ''InexactGaussNewton''), (''opt'', ''remember''),
       (''inverse_problem'', ''BaseInvProblem''), (''directives'', ''BetaEstimate_ByEig''),
       (''directives'', ''BetaSchedule''), (''directives'', ''TargetMisfit''),
       (''directives'', ''SaveOutputEveryIteration''), (''inversion'', ''BaseInversion''),
       (''np'', ''log''), (''mesh'', ''nC''), (''np'', ''ones''),
       (''np.float64'', ''__mul__''), (''inv'', ''run''), (''sigma_map'', ''__mul__''),
       (''sigma_rec'', ''__rtruediv__''), (''rho_rec'', ''min''), (''rho_rec'', ''max'')])"
  by (simp add: dc_run_inversion_def bindP_def ext_call_def returnP_def stub_simpeg_def Let_def)

lemma ert_stub_run:
  "ert_run_inversion stub_pygimli () None 20 (7 / 10) False 20 True () =
     (Inr ((), [100, 50]), (),
      [(''ert'', ''ERTManager''), (''mgr'', ''invert''), (''mgr.inv'', ''chi2''),
       (''mgr.inv'', ''relrms''), (''mgr.inv'', ''iter'')])"
  by (simp add: ert_run_inversion_def bindP_def ext_call_def returnP_def stub_pygimli_def)

text \<open>
  C4, as the code has it. No run of \<open>run_inversion\<close> of \<open>dc_inversion.py\<close> calls a method named
  \<open>invert\<close>. A run of it that returns has made the twenty-one external calls listed, in that
  order, each in the world the one before left: the map, the simulation, the misfit, the
  regularization, the optimizer and its \<open>remember\<close>, the inverse problem, the four directives
  and the \<open>BaseInversion\<close> object are built, the starting model \<open>m0\<close> is
  \<open>np.log(0.01) * np.ones(mesh.nC)\<close>, the recovered model is what the one call of \<open>run\<close> returned,
  made on the \<open>BaseInversion\<close> object with \<open>m0\<close>, and the value returned is
  \<open>1.0 / (sigma_map * mrec)\<close>. A run of \<open>run_inversion\<close> of \<open>ert_inversion.py\<close> that returns
  has built the manager, set the mesh if one was given, and called \<open>invert\<close> exactly once, on
  that manager with the five keyword arguments; it returns the manager and what that call
  returned.
\<close>

theorem inversion_engine_calls:
  assumes "dc_run_inversion lib mesh survey obs_data max_iter w = (r, w', calls)"
    and "ert_run_inversion glib dat gmesh lam z_weight robust gmax_iter verbose v
           = (Inr (mgr, model), v', gcalls)"
  shows "method_calls ''invert'' calls = 0
    \<and> (\<forall>rho_rec. r = Inr rho_rec \<longrightarrow>
          method_calls ''run'' calls = 1
          \<and> calls = [(''maps'', ''ExpMap''), (''dc'', ''Simulation2DNodal''),
                   (''data_misfit'', ''L2DataMisfit''), (''regularization'', ''WeightedLeastSquares''),
                   (''optimization'', ''InexactGaussNewton''), (''opt'', ''remember''),
                   (''inverse_problem'', ''BaseInvProblem''), (''directives'', ''BetaEstimate_ByEig''),
                   (''directives'', ''BetaSchedule''), (''directives'', ''TargetMisfit''),
                   (''directives'', ''SaveOutputEveryIteration''), (''inversion'', ''BaseInversion''),
                   (''np'', ''log''), (''mesh'', ''nC''), (''np'', ''ones''),
                   (''np.float64'', ''__mul__''), (''inv'', ''run''), (''sigma_map'', ''__mul__''),
                   (''sigma_rec'', ''__rtruediv__''), (''rho_rec'', ''min''), (''rho_rec'', ''max'')]
    \<and> (\<exists>sigma_map simulation dmis reg opt inv_prob starting_beta beta_schedule target_misfit
          save_iteration inv log_sigma nC ones m0 mrec sigma_rec lo hi
          w1 w2 w3 w4 w5 w6 w7 w8 w9 w10 w11 w12 w13 w14 w15 w16 w17 w18 w19 w20.
          maps_ExpMap lib mesh w = (Inr sigma_map, w1)
        \<and> dc_Simulation2DNodal lib mesh survey sigma_map w1 = (Inr simulation, w2)
        \<and> L2DataMisfit lib obs_data simulation w2 = (Inr dmis, w3)
        \<and> WeightedLeastSquares lib mesh (1 / 100) 1 1 w3 = (Inr reg, w4)
        \<and> InexactGaussNewton lib max_iter 20 w4 = (Inr opt, w5)
        \<and> opt_remember lib opt ''xc'' w5 = (Inr (), w6)
        \<and> BaseInvProblem lib dmis reg opt w6 = (Inr inv_prob, w7)
        \<and> BetaEstimate_ByEig lib 10 w7 = (Inr starting_beta, w8)
        \<and> BetaSchedule lib 2 1 w8 = (Inr beta_schedule, w9)
        \<and> TargetMisfit lib 1 w9 = (Inr target_misfit, w10)
        \<and> SaveOutputEveryIteration lib w10 = (Inr save_iteration, w11)
        \<and> BaseInversion lib inv_prob [starting_beta, beta_schedule, target_misfit, save_iteration] w11
            = (Inr inv, w12)
        \<and> np_log lib (1 / 100) w12 = (Inr log_sigma, w13)
        \<and> mesh_nC lib mesh w13 = (Inr nC, w14)
        \<and> np_ones lib nC w14 = (Inr ones, w15)
        \<and> obj_mul lib log_sigma ones w15 = (Inr m0, w16)
        \<and> inv_run lib inv m0 w16 = (Inr mrec, w17)
        \<and> obj_mul lib sigma_map mrec w17 = (Inr sigma_rec, w18)
        \<and> float_div lib 1 sigma_rec w18 = (Inr rho_rec, w19)
        \<and> arr_min lib rho_rec w19 = (Inr lo, w20)
        \<and> arr_max lib rho_rec w20 = (Inr hi, w')))
    \<and> method_calls ''invert'' gcalls = 1
    \<and> gcalls = [(''ert'', ''ERTManager'')]
                 @ (case gmesh of None \<Rightarrow> [] | Some m \<Rightarrow> [(''mgr'', ''setMesh'')])
                 @ [(''mgr'', ''invert''), (''mgr.inv'', ''chi2''), (''mgr.inv'', ''relrms''),
                    (''mgr.inv'', ''iter'')]
         \<and> (\<exists>chi2 rms iterations v1 v2 v3 v4 v5.
               ERTManager glib dat v = (Inr mgr, v1)
             \<and> (case gmesh of None \<Rightarrow> v2 = v1
                            | Some m \<Rightarrow> mgr_setMesh glib mgr m v1 = (Inr (), v2))
             \<and> mgr_invert glib mgr lam z_weight robust gmax_iter verbose v2 = (Inr model, v3)
             \<and> inv_chi2 glib mgr v3 = (Inr chi2, v4)
             \<and> inv_relrms glib mgr v4 = (Inr rms, v5)
             \<and> inv_iter glib mgr v5 = (Inr iterations, v'))"
proof -
  have a: "method_calls ''invert'' calls = 0"
    using dc_no_invert [of lib mesh survey obs_data max_iter w] assms(1) by simp
  have b: "method_calls ''run'' calls = 1
          \<and> calls = [(''maps'', ''ExpMap''), (''dc'', ''Simulation2DNodal''),
                   (''data_misfit'', ''L2DataMisfit''), (''regularization'', ''WeightedLeastSquares''),
                   (''optimization'', ''InexactGaussNewton''), (''opt'', ''remember''),
                   (''inverse_problem'', ''BaseInvProblem''), (''directives'', ''BetaEstimate_ByEig''),
                   (''directives'', ''BetaSchedule''), (''directives'', ''TargetMisfit''),
                   (''directives'', ''SaveOutputEveryIteration''), (''inversion'', ''BaseInversion''),
                   (''np'', ''log''), (''mesh'', ''nC''), (''np'', ''ones''),
                   (''np.float64'', ''__mul__''), (''inv'', ''run''), (''sigma_map'', ''__mul__''),
                   (''sigma_rec'', ''__rtruediv__''), (''rho_rec'', ''min''), (''rho_rec'', ''max'')]
    \<and> (\<exists>sigma_map simulation dmis reg opt inv_prob starting_beta beta_schedule target_misfit
          save_iteration inv log_sigma nC ones m0 mrec sigma_rec lo hi
          w1 w2 w3 w4 w5 w6 w7 w8 w9 w10 w11 w12 w13 w14 w15 w16 w17 w18 w19 w20.
          maps_ExpMap lib mesh w = (Inr sigma_map, w1)
        \<and> dc_Simulation2DNodal lib mesh survey sigma_map w1 = (Inr simulation, w2)
        \<and> L2DataMisfit lib obs_data simulation w2 = (Inr dmis, w3)
        \<and> WeightedLeastSquares lib mesh (1 / 100) 1 1 w3 = (Inr reg, w4)
        \<and> InexactGaussNewton lib max_iter 20 w4 = (Inr opt, w5)
        \<and> opt_remember lib opt ''xc'' w5 = (Inr (), w6)
        \<and> BaseInvProblem lib dmis reg opt w6 = (Inr inv_prob, w7)
        \<and> BetaEstimate_ByEig lib 10 w7 = (Inr starting_beta, w8)
        \<and> BetaSchedule lib 2 1 w8 = (Inr beta_schedule, w9)
        \<and> TargetMisfit lib 1 w9 = (Inr target_misfit, w10)
        \<and> SaveOutputEveryIteration lib w10 = (Inr save_iteration, w11)
        \<and> BaseInversion lib inv_prob [starting_beta, beta_schedule, target_misfit, save_iteration] w11
            = (Inr inv, w12)
        \<and> np_log lib (1 / 100) w12 = (Inr log_sigma, w13)
        \<and> mesh_nC lib mesh w13 = (Inr nC, w14)
        \<and> np_ones lib nC w14 = (Inr ones, w15)
        \<and> obj_mul lib log_sigma ones w15 = (Inr m0, w16)
        \<and> inv_run lib inv m0 w16 = (Inr mrec, w17)
        \<and> obj_mul lib sigma_map mrec w17 = (Inr sigma_rec, w18)
        \<and> float_div lib 1 sigma_rec w18 = (Inr rho_rec, w19)
        \<and> arr_min lib rho_rec w19 = (Inr lo, w20)
        \<and> arr_max lib rho_rec w20 = (Inr hi, w'))" if "r = Inr rho_rec" for rho_rec
  proof -
    have run: "dc_run_inversion lib mesh survey obs_data max_iter w = (Inr rho_rec, w', calls)"
      using assms(1) that by simp
    have c: "calls = [(''maps'', ''ExpMap''), (''dc'', ''Simulation2DNodal''),
                   (''data_misfit'', ''L2DataMisfit''), (''regularization'', ''WeightedLeastSquares''),
                   (''optimization'', ''InexactGaussNewton''), (''opt'', ''remember''),
                   (''inverse_problem'', ''BaseInvProblem''), (''directives'', ''BetaEstimate_ByEig''),
                   (''directives'', ''BetaSchedule''), (''directives'', ''TargetMisfit''),
                   (''directives'', ''SaveOutputEveryIteration''), (''inversion'', ''BaseInversion''),
                   (''np'', ''log''), (''mesh'', ''nC''), (''np'', ''ones''),
                   (''np.float64'', ''__mul__''), (''inv'', ''run''), (''sigma_map'', ''__mul__''),
                   (''sigma_rec'', ''__rtruediv__''), (''rho_rec'', ''min''), (''rho_rec'', ''max'')]
    \<and> (\<exists>sigma_map simulation dmis reg opt inv_prob starting_beta beta_schedule target_misfit
          save_iteration inv log_sigma nC ones m0 mrec sigma_rec lo hi
          w1 w2 w3 w4 w5 w6 w7 w8 w9 w10 w11 w12 w13 w14 w15 w16 w17 w18 w19 w20.
          maps_ExpMap lib mesh w = (Inr sigma_map, w1)
        \<and> dc_Simulation2DNodal lib mesh survey sigma_map w1 = (Inr simulation, w2)
        \<and> L2DataMisfit lib obs_data simulation w2 = (Inr dmis, w3)
        \<and> WeightedLeastSquares lib mesh (1 / 100) 1 1 w3 = (Inr reg, w4)
        \<and> InexactGaussNewton lib max_iter 20 w4 = (Inr opt, w5)
        \<and> opt_remember lib opt ''xc'' w5 = (Inr (), w6)
        \<and> BaseInvProblem lib dmis reg opt w6 = (Inr inv_prob, w7)
        \<and> BetaEstimate_ByEig lib 10 w7 = (Inr starting_beta, w8)
        \<and> BetaSchedule lib 2 1 w8 = (Inr beta_schedule, w9)
        \<and> TargetMisfit lib 1 w9 = (Inr target_misfit, w10)
        \<and> SaveOutputEveryIteration lib w10 = (Inr save_iteration, w11)
        \<and> BaseInversion lib inv_prob [starting_beta, beta_schedule, target_misfit, save_iteration] w11
            = (Inr inv, w12)
        \<and> np_log lib (1 / 100) w12 = (Inr log_sigma, w13)
        \<and> mesh_nC lib mesh w13 = (Inr nC, w14)
        \<and> np_ones lib nC w14 = (Inr ones, w15)
        \<and> obj_mul lib log_sigma ones w15 = (Inr m0, w16)
        \<and> inv_run lib inv m0 w16 = (Inr mrec, w17)
        \<and> obj_mul lib sigma_map mrec w17 = (Inr sigma_rec, w18)
        \<and> float_div lib 1 sigma_rec w18 = (Inr rho_rec, w19)
        \<and> arr_min lib rho_rec w19 = (Inr lo, w20)
        \<and> arr_max lib rho_rec w20 = (Inr hi, w'))"
      by (rule dc_returning_run [OF run])
    then have "method_calls ''run'' calls = 1" by (simp add: method_calls_simps)
    then show ?thesis using c by (rule conjI)
  qed
  have c: "gcalls = [(''ert'', ''ERTManager'')]
                 @ (case gmesh of None \<Rightarrow> [] | Some m \<Rightarrow> [(''mgr'', ''setMesh'')])
                 @ [(''mgr'', ''invert''), (''mgr.inv'', ''chi2''), (''mgr.inv'', ''relrms''),
                    (''mgr.inv'', ''iter'')]
         \<and> (\<exists>chi2 rms iterations v1 v2 v3 v4 v5.
               ERTManager glib dat v = (Inr mgr, v1)
             \<and> (case gmesh of None \<Rightarrow> v2 = v1
                            | Some m \<Rightarrow> mgr_setMesh glib mgr m v1 = (Inr (), v2))
             \<and> mgr_invert glib mgr lam z_weight robust gmax_iter verbose v2 = (Inr model, v3)
             \<and> inv_chi2 glib mgr v3 = (Inr chi2, v4)
             \<and> inv_relrms glib mgr v4 = (Inr rms, v5)
             \<and> inv_iter glib mgr v5 = (Inr iterations, v'))"
    by (rule ert_returning_run [OF assms(2)])
  then have d: "method_calls ''invert'' gcalls = 1"
    by (cases gmesh) (simp_all add: method_calls_simps)
  show ?thesis using a b c d by blast
qed

theorem inversion_engine_calls_witness:
  "fst (dc_run_inversion stub_simpeg 0 0 0 20 ()) = Inr 17
   \<and> fst (ert_run_inversion stub_pygimli () None 20 (7 / 10) False 20 True ()) = Inr ((), [100, 50])
   \<and> method_calls ''invert'' (snd (snd (dc_run_inversion stub_simpeg 0 0 0 20 ()))) = 0
   \<and> method_calls ''run'' (snd (snd (dc_run_inversion stub_simpeg 0 0 0 20 ()))) = 1
   \<and> method_calls ''invert''
         (snd (snd (ert_run_inversion stub_pygimli () None 20 (7 / 10) False 20 True ()))) = 1"
  using inversion_engine_calls [OF dc_stub_run ert_stub_run]
  unfolding dc_stub_run ert_stub_run by simp

text \<open>
  C4 as stated fails for \<open>dc_inversion.py\<close>: a run of its \<open>run_inversion\<close> that returns a
  model makes twenty-one external calls, none of them of a method named \<open>invert\<close>.
\<close>

theorem dc_inversion_no_invert_counterexample:
  "fst (dc_run_inversion stub_simpeg 0 0 0 20 ()) = Inr 17
   \<and> length (snd (snd (dc_run_inversion stub_simpeg 0 0 0 20 ()))) = 21
   \<and> method_calls ''invert'' (snd (snd (dc_run_inversion stub_simpeg 0 0 0 20 ()))) = 0
   \<and> method_calls ''run'' (snd (snd (dc_run_inversion stub_simpeg 0 0 0 20 ()))) = 1"
  by (simp add: dc_stub_run method_calls_def)

end
